theory Spec2Isabelle
  imports Complex_Main "HOL-Library.List_Lexorder" "HOL-Library.Char_ord" "HOL-Library.Multiset"
begin

section \<open>JavaScript values and library operations\<close>

text \<open>
  The aggregation engine of the dashboard is JavaScript. A JavaScript number is modelled as
  a real. A function that takes the parameter \<open>fl\<close> passes the result of every
  arithmetic operation through it: with \<open>roundToDouble\<close> for \<open>fl\<close> it is the
  arithmetic of IEEE doubles, with the identity it is exact arithmetic, and a property
  proved for every \<open>fl\<close> holds of both. The RFT rate, the month buckets and the
  Pareto ranking are modelled in exact arithmetic. Counters are natural numbers; they stay
  far below \<open>2^53\<close>, where the arithmetic of doubles is exact. A value that is
  not a finite number (a division by zero, a string that is not a number, NaN) is
  \<open>None\<close>; overflow to an infinity is not modelled. A property that may be absent is
  an \<open>option\<close>; a field that is only ever tested for truthiness is a \<open>bool\<close>.
  Strings are byte strings and are compared lexicographically by character code, as
  \<open>Array.prototype.sort\<close> without a comparator compares them.
\<close>

datatype errorTypeField = ErrorString string | ErrorArray "string list"

record jsDate =
  getTime :: int
  getFullYear :: int
  getMonth :: nat

text \<open>
  The value of a cycle-time property of a record: a number, a string (the sample records of
  the repository carry the output of \<open>toFixed(1)\<close> there), or \<open>NoValue\<close>
  for a property that is absent, \<open>null\<close> or NaN.
\<close>

datatype fieldValue = NoValue | NumberValue real | StringValue string

text \<open>
  One flat record of the input array, with the fields read by the modelled functions. The
  identifier, the source tag and the dates are strings when present; the elements of an
  \<open>errorTypes\<close> array are strings.
\<close>

record rawRecord =
  batchId :: "string option"
  source :: "string option"
  hasErrors :: bool
  errorTypes :: "errorTypeField option"
  assembly_start :: "string option"
  assembly_cycle_time :: fieldValue
  pci_wip_review_cycle_time :: fieldValue
  nn_wip_review_cycle_time :: fieldValue
  packaging_start :: "string option"
  packaging_finish :: "string option"

definition truthyString :: "string option \<Rightarrow> bool" where
  "truthyString v = (case v of None \<Rightarrow> False | Some s \<Rightarrow> s \<noteq> [])"

definition truthyValue :: "fieldValue \<Rightarrow> bool" where
  "truthyValue v =
     (case v of NoValue \<Rightarrow> False | NumberValue x \<Rightarrow> x \<noteq> 0 | StringValue s \<Rightarrow> s \<noteq> [])"

text \<open>
  The number a value is converted to where the engine compares it, subtracts it or passes
  it to \<open>isNaN\<close>. The conversion of a string belongs to the language and is the
  parameter \<open>toNumber\<close>, with \<open>None\<close> for NaN. The function is applied to
  the variable \<open>duration\<close> only, where \<open>NoValue\<close> is \<open>null\<close>,
  whose number is 0.
\<close>

definition numberOf :: "(string \<Rightarrow> real option) \<Rightarrow> fieldValue \<Rightarrow> real option" where
  "numberOf toNumber v =
     (case v of NoValue \<Rightarrow> Some 0 | NumberValue x \<Rightarrow> Some x | StringValue s \<Rightarrow> toNumber s)"

definition isNaN :: "(string \<Rightarrow> real option) \<Rightarrow> fieldValue \<Rightarrow> bool" where
  "isNaN toNumber v = (numberOf toNumber v = None)"

text \<open>\<open>v >= limit\<close> for a number \<open>limit\<close>: false when \<open>v\<close> converts to NaN.\<close>

definition atLeastNumber :: "(string \<Rightarrow> real option) \<Rightarrow> fieldValue \<Rightarrow> real \<Rightarrow> bool" where
  "atLeastNumber toNumber v limit =
     (case numberOf toNumber v of None \<Rightarrow> False | Some x \<Rightarrow> limit \<le> x)"

text \<open>
  \<open>typeof v === 'number' && !isNaN(v)\<close>, the test of \<open>calculateStatistics\<close>:
  the number when it holds.
\<close>

definition numericEntry :: "fieldValue \<Rightarrow> real option" where
  "numericEntry v = (case v of NumberValue x \<Rightarrow> Some x | _ \<Rightarrow> None)"

text \<open>\<open>xs.slice(start)\<close> and \<open>xs.slice(0, end)\<close>: a negative index counts from the end.\<close>

definition sliceFrom :: "int \<Rightarrow> 'a list \<Rightarrow> 'a list" where
  "sliceFrom start xs =
     (let len = int (length xs);
          k = (if start < 0 then max (len + start) 0 else min start len)
      in drop (nat k) xs)"

definition sliceTo :: "int \<Rightarrow> 'a list \<Rightarrow> 'a list" where
  "sliceTo stop xs =
     (let len = int (length xs);
          k = (if stop < 0 then max (len + stop) 0 else min stop len)
      in take (nat k) xs)"

text \<open>
  \<open>a / b\<close> on numbers: \<open>None\<close> when the divisor is zero, where JavaScript yields NaN or
  an infinity.
\<close>

definition jsDivide :: "real \<Rightarrow> real \<Rightarrow> real option" where
  "jsDivide a b = (if b = 0 then None else Some (a / b))"

text \<open>
  The number denoted by \<open>x.toFixed(1)\<close>: the sign is split off, a magnitude of at least
  \<open>10^21\<close> is printed as it is, and otherwise the nearest multiple of one tenth is taken,
  the larger one on a tie.
\<close>

definition toFixed1 :: "real \<Rightarrow> real" where
  "toFixed1 x =
     (let m = \<bar>x\<bar>;
          r = (if m \<ge> 10 ^ 21 then m else real_of_int \<lfloor>m * 10 + 1 / 2\<rfloor> / 10)
      in if x < 0 then - r else r)"

text \<open>
  The white space removed by \<open>trim\<close> and skipped by \<open>parseFloat\<close>, as far as
  it lies in ASCII: space, tab, line feed, vertical tab, form feed and carriage return.
\<close>

definition isWhiteSpace :: "char \<Rightarrow> bool" where
  "isWhiteSpace c = (c \<in> set [CHR '' '', CHR 0x09, CHR 0x0A, CHR 0x0B, CHR 0x0C, CHR 0x0D])"

definition trim :: "string \<Rightarrow> string" where
  "trim s = rev (dropWhile isWhiteSpace (rev (dropWhile isWhiteSpace s)))"

fun split :: "char \<Rightarrow> string \<Rightarrow> string list" where
  "split sep [] = [[]]"
| "split sep (c # cs) =
     (if c = sep then [] # split sep cs
      else (case split sep cs of [] \<Rightarrow> [[c]] | w # ws \<Rightarrow> (c # w) # ws))"

definition isDigit :: "char \<Rightarrow> bool" where
  "isDigit c = (c \<in> set ''0123456789'')"

definition digitValue :: "char \<Rightarrow> nat" where
  "digitValue c = length (takeWhile (\<lambda>d. d \<noteq> c) ''0123456789'')"

definition digitsValue :: "string \<Rightarrow> nat" where
  "digitsValue ds = foldl (\<lambda>a c. 10 * a + digitValue c) 0 ds"

text \<open>
  The exponent part at the front of the rest of a numeric string: \<open>e\<close> or
  \<open>E\<close>, an optional sign and digits; 0 when there is none.
\<close>

definition exponentPart :: "string \<Rightarrow> int" where
  "exponentPart rest =
     (case rest of
        [] \<Rightarrow> 0
      | c # r \<Rightarrow>
          if c = CHR ''e'' \<or> c = CHR ''E''
          then (let negative = (case r of [] \<Rightarrow> False | d # _ \<Rightarrow> d = CHR ''-'');
                    ds = takeWhile isDigit
                           (case r of
                              [] \<Rightarrow> []
                            | d # r' \<Rightarrow> if d = CHR ''-'' \<or> d = CHR ''+'' then r' else r)
                in if ds = [] then 0
                   else if negative then - int (digitsValue ds) else int (digitsValue ds))
          else 0)"

text \<open>
  \<open>parseFloat\<close>: leading white space, an optional sign, digits, an optional
  fraction and an optional exponent; anything after that prefix is ignored. The result is
  the number nearest to the decimal that was read; \<open>None\<close> is NaN. The literal
  \<open>Infinity\<close> is not modelled.
\<close>

definition parseFloat :: "(real \<Rightarrow> real) \<Rightarrow> string \<Rightarrow> real option" where
  "parseFloat fl s =
     (let t = dropWhile isWhiteSpace s;
          neg = (case t of [] \<Rightarrow> False | c # _ \<Rightarrow> c = CHR ''-'');
          u = (case t of [] \<Rightarrow> [] | c # r \<Rightarrow> if c = CHR ''-'' \<or> c = CHR ''+'' then r else t);
          ip = takeWhile isDigit u;
          r1 = dropWhile isDigit u;
          fp = (case r1 of [] \<Rightarrow> [] | c # r \<Rightarrow> if c = CHR ''.'' then takeWhile isDigit r else []);
          r2 = (case r1 of [] \<Rightarrow> [] | c # r \<Rightarrow> if c = CHR ''.'' then dropWhile isDigit r else r1);
          ex = exponentPart r2
      in if ip = [] \<and> fp = [] then None
         else (let m = real (digitsValue ip) + real (digitsValue fp) / 10 ^ length fp;
                   v = (if ex < 0 then m / 10 ^ nat (- ex) else m * 10 ^ nat ex)
               in Some (fl (if neg then - v else v))))"

text \<open>\<open>v || 0\<close> on a number: NaN and zero both give zero.\<close>

definition orZero :: "real option \<Rightarrow> real" where
  "orZero v = (case v of None \<Rightarrow> 0 | Some x \<Rightarrow> x)"

definition digitChar :: "nat \<Rightarrow> char" where
  "digitChar n = ''0123456789'' ! (n mod 10)"

function showNat :: "nat \<Rightarrow> string" where
  "showNat n = (if n < 10 then [digitChar n] else showNat (n div 10) @ [digitChar (n mod 10)])"
  by pat_completeness auto
termination
  by (relation "measure (\<lambda>n. n)") auto

declare showNat.simps [simp del]

definition showInt :: "int \<Rightarrow> string" where
  "showInt i = (if i < 0 then CHR ''-'' # showNat (nat (- i)) else showNat (nat i))"

text \<open>\<open>s.padStart(2, '0')\<close>.\<close>

definition padStart2 :: "string \<Rightarrow> string" where
  "padStart2 s = replicate (2 - length s) CHR ''0'' @ s"

text \<open>
  The rounding of IEEE 754 binary64 arithmetic: the double nearest to a real, ties going to
  the even significand. The exponent of the binade is found by halving or doubling, with
  more steps allowed than the exponent range of a double needs; below the normal range the
  spacing stays that of the subnormal numbers. Overflow to an infinity is not modelled.
\<close>

fun binaryExponent :: "nat \<Rightarrow> real \<Rightarrow> int" where
  "binaryExponent fuel x =
     (if fuel = 0 then 0
      else if 2 \<le> x then binaryExponent (fuel - 1) (x / 2) + 1
      else if x < 1 then binaryExponent (fuel - 1) (x * 2) - 1
      else 0)"

declare binaryExponent.simps [simp del]

definition roundHalfEven :: "real \<Rightarrow> int" where
  "roundHalfEven q =
     (let f = \<lfloor>q\<rfloor>; r = q - real_of_int f
      in if r < 1 / 2 then f else if 1 / 2 < r then f + 1 else if even f then f else f + 1)"

definition ulpAt :: "int \<Rightarrow> real" where
  "ulpAt e = (if 52 \<le> e then 2 ^ nat (e - 52) else 1 / 2 ^ nat (52 - e))"

definition roundToDouble :: "real \<Rightarrow> real" where
  "roundToDouble x =
     (if x = 0 then 0
      else (let u = ulpAt (max (binaryExponent 2200 \<bar>x\<bar>) (- 1022))
            in real_of_int (roundHalfEven (x / u)) * u))"

section \<open>Plain objects used as dictionaries\<close>

text \<open>
  An object created by \<open>{}\<close> is the list of its own properties in the order of their
  creation. Reading a property that the object does not own finds the member of
  \<open>Object.prototype\<close> of that name, if there is one: a function, or for
  \<open>__proto__\<close> the prototype object itself, and so a truthy value that is neither
  a number nor an array. These are the member names of ECMAScript, Annex B included.
\<close>

definition prototypeNames :: "string list" where
  "prototypeNames =
     [''constructor'', ''__defineGetter__'', ''__defineSetter__'', ''hasOwnProperty'',
      ''__lookupGetter__'', ''__lookupSetter__'', ''isPrototypeOf'', ''propertyIsEnumerable'',
      ''toString'', ''valueOf'', ''__proto__'', ''toLocaleString'']"

text \<open>
  A property name is an array index when it is the decimal numeral, without a sign or a
  leading zero, of an integer below \<open>2^32 - 1\<close>.
\<close>

definition isArrayIndex :: "string \<Rightarrow> bool" where
  "isArrayIndex s =
     (s \<noteq> [] \<and> list_all isDigit s \<and> (s = ''0'' \<or> hd s \<in> set ''123456789'')
      \<and> digitsValue s < 4294967295)"

text \<open>
  \<open>Object.entries(obj)\<close>: the array indices first, in ascending numeric order, then
  the other names in the order of their creation.
\<close>

definition objectEntries :: "(string \<times> 'a) list \<Rightarrow> (string \<times> 'a) list" where
  "objectEntries obj =
     sort_key (\<lambda>e. digitsValue (fst e)) (filter (\<lambda>e. isArrayIndex (fst e)) obj)
       @ filter (\<lambda>e. \<not> isArrayIndex (fst e)) obj"

text \<open>\<open>obj[k] = v\<close> for a property the object owns: the property keeps its place.\<close>

fun assignOwn :: "(string \<times> 'a) list \<Rightarrow> string \<Rightarrow> 'a \<Rightarrow> (string \<times> 'a) list" where
  "assignOwn [] k v = []"
| "assignOwn ((k', w) # rest) k v =
     (if k' = k then (k', v) # rest else (k', w) # assignOwn rest k v)"

text \<open>
  \<open>xs.sort(compare)\<close>: \<open>x\<close> goes before \<open>y\<close> when \<open>compare(x, y)\<close> is
  negative, and elements that compare as equal keep their order. The sort is written as an
  insertion sort. When the comparator is a consistent order this is the result ECMAScript
  prescribes; when it is not, ECMAScript leaves the order to the implementation and the
  model gives one of the orders allowed.
\<close>

fun insertBy :: "('a \<Rightarrow> 'a \<Rightarrow> int) \<Rightarrow> 'a \<Rightarrow> 'a list \<Rightarrow> 'a list" where
  "insertBy cmp x [] = [x]"
| "insertBy cmp x (y # ys) =
     (if cmp x y \<le> 0 then x # y # ys else y # insertBy cmp x ys)"

definition sortBy :: "('a \<Rightarrow> 'a \<Rightarrow> int) \<Rightarrow> 'a list \<Rightarrow> 'a list" where
  "sortBy cmp xs = foldr (insertBy cmp) xs []"

section \<open>utility-functions.js\<close>

record statistics =
  stats_min :: real
  stats_max :: real
  mean :: real
  median :: real
  standardDeviation :: real

definition zeroStatistics :: statistics where
  "zeroStatistics =
     \<lparr>stats_min = 0, stats_max = 0, mean = 0, median = 0, standardDeviation = 0\<rparr>"

text \<open>
  \<open>calculateStatistics(data)\<close>. An entry that is not a number, or is NaN, is \<open>None\<close> and
  is filtered out. The indices read from the sorted copy are all in range, since the copy is
  not empty at that point. The result of every arithmetic operation passes through
  \<open>fl\<close>: the identity for exact arithmetic, \<open>roundToDouble\<close> for the arithmetic of
  JavaScript numbers.
\<close>

definition calculateStatisticsWith :: "(real \<Rightarrow> real) \<Rightarrow> real option list \<Rightarrow> statistics" where
  "calculateStatisticsWith fl data =
     (if data = [] then zeroStatistics
      else
        (let numericData = List.map_filter (\<lambda>v. v) data in
         if numericData = [] then zeroStatistics
         else
           (let sortedData = sort numericData;
                lo = sortedData ! 0;
                hi = sortedData ! (length sortedData - 1);
                sumAll = foldl (\<lambda>acc v. fl (acc + v)) 0 sortedData;
                avg = fl (sumAll / real (length sortedData));
                midpoint = length sortedData div 2;
                med = (if length sortedData mod 2 = 0
                       then fl (fl (sortedData ! (midpoint - 1) + sortedData ! midpoint) / 2)
                       else sortedData ! midpoint);
                squareDiffs = map (\<lambda>v. fl (fl (v - avg) * fl (v - avg))) sortedData;
                avgSquareDiff =
                  fl (foldl (\<lambda>acc v. fl (acc + v)) 0 squareDiffs / real (length squareDiffs))
            in \<lparr>stats_min = lo, stats_max = hi, mean = avg, median = med,
                standardDeviation = fl (sqrt avgSquareDiff)\<rparr>)))"

text \<open>The function in exact arithmetic, as the rest of the engine is modelled.\<close>

definition calculateStatistics :: "real option list \<Rightarrow> statistics" where
  "calculateStatistics data = calculateStatisticsWith (\<lambda>x. x) data"

record paretoItem =
  item_name :: string
  item_value :: real

record paretoEntry =
  entry_name :: string
  entry_value :: real
  percentage :: "real option"
  cumulative :: real
  cumulativePercentage :: "real option"

text \<open>
  The body of the \<open>map\<close> in \<open>calculateParetoData\<close>, with the running variable
  \<open>cumulative\<close> passed along. A percentage is \<open>parseFloat(p.toFixed(1))\<close>, which is
  not a finite number exactly when \<open>p\<close> is not.
\<close>

fun paretoRows :: "real \<Rightarrow> real \<Rightarrow> paretoItem list \<Rightarrow> paretoEntry list" where
  "paretoRows grand running [] = []"
| "paretoRows grand running (item # rest) =
     (let pct = map_option (\<lambda>q. q * 100) (jsDivide (item_value item) grand);
          running' = running + item_value item;
          cumPct = map_option (\<lambda>q. q * 100) (jsDivide running' grand)
      in \<lparr>entry_name = item_name item, entry_value = item_value item,
          percentage = map_option toFixed1 pct, cumulative = running',
          cumulativePercentage = map_option toFixed1 cumPct\<rparr>
         # paretoRows grand running' rest)"

text \<open>
  \<open>calculateParetoData(data)\<close>: the sort with comparator \<open>b.value - a.value\<close> is stable
  and descending.
\<close>

definition calculateParetoData :: "paretoItem list \<Rightarrow> paretoEntry list" where
  "calculateParetoData data =
     (let sortedData = sort_key (\<lambda>item. - item_value item) data;
          grand = foldl (\<lambda>acc item. acc + item_value item) 0 sortedData
      in paretoRows grand 0 sortedData)"

text \<open>
  An exception thrown by the engine. A \<open>try\<close> block is modelled by a sum: \<open>Inl\<close>
  is the exception thrown.
\<close>

datatype jsError = TypeError

text \<open>
  \<open>groupBy(data, field)\<close>; \<open>key\<close> reads the field, a string here. The
  callback of the \<open>reduce\<close> is \<open>if (!groups[key]) groups[key] = []; groups[key].push(item)\<close>:
  for a name that the object does not own but \<open>Object.prototype\<close> has, the value read
  is truthy and has no \<open>push\<close>, so the call throws a TypeError.
\<close>

definition groupStep ::
  "('a \<Rightarrow> string) \<Rightarrow> jsError + (string \<times> 'a list) list \<Rightarrow> 'a
     \<Rightarrow> jsError + (string \<times> 'a list) list" where
  "groupStep key state item =
     (case state of
        Inl e \<Rightarrow> Inl e
      | Inr groups \<Rightarrow>
          (case map_of groups (key item) of
             Some members \<Rightarrow> Inr (assignOwn groups (key item) (members @ [item]))
           | None \<Rightarrow>
               if key item \<in> set prototypeNames then Inl TypeError
               else Inr (groups @ [(key item, [item])])))"

definition groupBy :: "('a \<Rightarrow> string) \<Rightarrow> 'a list \<Rightarrow> jsError + (string \<times> 'a list) list" where
  "groupBy key data = foldl (groupStep key) (Inr []) data"

section \<open>DataTransformer: metric calculators\<close>

text \<open>\<open>calculateRFTRate(records)\<close>.\<close>

definition calculateRFTRate :: "rawRecord list \<Rightarrow> real" where
  "calculateRFTRate records =
     (if records = [] then 0
      else (let passCount = length (filter (\<lambda>r. \<not> hasErrors r) records)
            in (real passCount / real (length records)) * 100))"

text \<open>
  The month key \<open>`${date.getFullYear()}-${String(date.getMonth() + 1).padStart(2, '0')}`\<close>.
\<close>

definition monthKey :: "jsDate \<Rightarrow> string" where
  "monthKey date = showInt (getFullYear date) @ ''-'' @ padStart2 (showNat (getMonth date + 1))"

text \<open>
  \<open>monthGroups[monthKey].push(record)\<close>, creating the group on first use. An object is an
  association list in insertion order, which is the order of \<open>Object.keys\<close> for keys that
  are not array indices.
\<close>

fun pushGroup :: "(string \<times> 'a list) list \<Rightarrow> string \<Rightarrow> 'a \<Rightarrow> (string \<times> 'a list) list" where
  "pushGroup [] k v = [(k, [v])]"
| "pushGroup ((k', vs) # groups) k v =
     (if k' = k then (k', vs @ [v]) # groups else (k', vs) # pushGroup groups k v)"

text \<open>\<open>groups[month] || []\<close>.\<close>

definition lookupGroup :: "(string \<times> 'a list) list \<Rightarrow> string \<Rightarrow> 'a list" where
  "lookupGroup groups month = (case map_of groups month of None \<Rightarrow> [] | Some rs \<Rightarrow> rs)"

text \<open>
  The callback of the \<open>forEach\<close> in \<open>groupRecordsByMonth\<close>. The constructor
  \<open>Date\<close> belongs to the platform and is a parameter: \<open>newDate s\<close> is \<open>None\<close>
  when \<open>new Date(s).getTime()\<close> is NaN.
\<close>

definition addToMonthGroup ::
  "(string \<Rightarrow> jsDate option) \<Rightarrow> (rawRecord \<Rightarrow> string option)
     \<Rightarrow> (string \<times> rawRecord list) list \<Rightarrow> rawRecord \<Rightarrow> (string \<times> rawRecord list) list" where
  "addToMonthGroup newDate dateField groups record =
     (case dateField record of
        None \<Rightarrow> groups
      | Some s \<Rightarrow>
          (case newDate s of
             None \<Rightarrow> groups
           | Some date \<Rightarrow> pushGroup groups (monthKey date) record))"

text \<open>
  \<open>groupRecordsByMonth(records, dateField = 'assembly_start', monthCount = 12)\<close>. The
  field name is the selector of the field; an omitted argument is \<open>None\<close>.
\<close>

definition groupRecordsByMonth ::
  "(string \<Rightarrow> jsDate option) \<Rightarrow> rawRecord list \<Rightarrow> (rawRecord \<Rightarrow> string option) option
     \<Rightarrow> int option \<Rightarrow> (string \<times> rawRecord list) list" where
  "groupRecordsByMonth newDate records dateFieldArg monthCountArg =
     (let dateField = (case dateFieldArg of None \<Rightarrow> assembly_start | Some f \<Rightarrow> f);
          monthCount = (case monthCountArg of None \<Rightarrow> 12 | Some n \<Rightarrow> n);
          validRecords =
            filter (\<lambda>r. truthyString (dateField r) \<and> dateField r \<noteq> Some ''N/A'') records;
          monthGroups = foldl (addToMonthGroup newDate dateField) [] validRecords;
          sortedMonths = sliceFrom (- monthCount) (sort (map fst monthGroups))
      in map (\<lambda>m. (m, lookupGroup monthGroups m)) sortedMonths)"

text \<open>
  One entry of the ranking. The count is \<open>None\<close> when it is NaN, and so is a
  percentage that is not a finite number.
\<close>

record errorTypeEntry =
  et_name :: string
  et_count :: "nat option"
  et_percentage :: "real option"

text \<open>
  The tokens of one \<open>errorTypes\<close> value: a string is split at commas and every piece is
  trimmed; an array is taken as it is.
\<close>

definition tokensOf :: "errorTypeField \<Rightarrow> string list" where
  "tokensOf et =
     (case et of ErrorString s \<Rightarrow> map trim (split CHR '','' s) | ErrorArray ts \<Rightarrow> ts)"

definition truthyErrorTypes :: "errorTypeField option \<Rightarrow> bool" where
  "truthyErrorTypes v =
     (case v of None \<Rightarrow> False | Some (ErrorString s) \<Rightarrow> s \<noteq> [] | Some (ErrorArray ts) \<Rightarrow> True)"

text \<open>
  \<open>if (!errorCounts[type]) errorCounts[type] = 0; errorCounts[type]++\<close> on the object
  \<open>errorCounts\<close>. A count the object owns is replaced by its successor, and a NaN
  (falsy) is first reset to 0. For a name the object does not own, a member of
  \<open>Object.prototype\<close> is read as a truthy value and incremented to NaN: the
  assignment creates the property with the value NaN, except for \<open>__proto__\<close>, whose
  setter ignores a number. Any other new name is created with the count 1.
\<close>

definition countType :: "(string \<times> nat option) list \<Rightarrow> string \<Rightarrow> (string \<times> nat option) list" where
  "countType counts t =
     (case map_of counts t of
        Some c \<Rightarrow> assignOwn counts t (Some (case c of None \<Rightarrow> 1 | Some n \<Rightarrow> n + 1))
      | None \<Rightarrow>
          if t = ''__proto__'' then counts
          else if t \<in> set prototypeNames then counts @ [(t, None)]
          else counts @ [(t, Some 1)])"

definition countRecordTypes ::
  "(string \<times> nat option) list \<Rightarrow> rawRecord \<Rightarrow> (string \<times> nat option) list" where
  "countRecordTypes counts record =
     (case errorTypes record of
        None \<Rightarrow> counts
      | Some et \<Rightarrow> foldl (\<lambda>cs t. if t = [] then cs else countType cs t) counts (tokensOf et))"

text \<open>
  The comparator \<open>(a, b) => b.count - a.count\<close>: a difference with NaN is NaN, which
  \<open>sort\<close> reads as 0.
\<close>

definition byCountDescending :: "string \<times> nat option \<Rightarrow> string \<times> nat option \<Rightarrow> int" where
  "byCountDescending a b =
     (case (snd a, snd b) of (Some x, Some y) \<Rightarrow> int y - int x | _ \<Rightarrow> 0)"

text \<open>\<open>sum + entry.count\<close>: NaN once a count is NaN.\<close>

definition addCount :: "nat option \<Rightarrow> string \<times> nat option \<Rightarrow> nat option" where
  "addCount acc e = (case (acc, snd e) of (Some a, Some c) \<Rightarrow> Some (a + c) | _ \<Rightarrow> None)"

text \<open>\<open>(entry.count / totalErrors) * 100\<close>.\<close>

definition percentageOf :: "(real \<Rightarrow> real) \<Rightarrow> nat option \<Rightarrow> nat option \<Rightarrow> real option" where
  "percentageOf fl c t =
     (case (c, t) of
        (Some x, Some y) \<Rightarrow> map_option (\<lambda>q. fl (fl q * 100)) (jsDivide (real x) (real y))
      | _ \<Rightarrow> None)"

text \<open>
  \<open>analyzeErrorTypes\<close> up to its last line: the ranking before it is cut to the
  requested length.
\<close>

definition rankErrorTypes :: "(real \<Rightarrow> real) \<Rightarrow> rawRecord list \<Rightarrow> errorTypeEntry list" where
  "rankErrorTypes fl records =
     (let recordsWithErrors =
            filter (\<lambda>r. hasErrors r \<and> truthyErrorTypes (errorTypes r)) records;
          errorCounts = foldl countRecordTypes [] recordsWithErrors;
          errorArray = sortBy byCountDescending (objectEntries errorCounts);
          totalErrors = foldl addCount (Some 0) errorArray
      in map (\<lambda>e. \<lparr>et_name = fst e, et_count = snd e,
                     et_percentage = percentageOf fl (snd e) totalErrors\<rparr>) errorArray)"

text \<open>\<open>analyzeErrorTypes(records, topCount = 3)\<close>.\<close>

definition analyzeErrorTypes ::
  "(real \<Rightarrow> real) \<Rightarrow> rawRecord list \<Rightarrow> int option \<Rightarrow> errorTypeEntry list" where
  "analyzeErrorTypes fl records topCountArg =
     (if records = [] then []
      else sliceTo (case topCountArg of None \<Rightarrow> 3 | Some n \<Rightarrow> n) (rankErrorTypes fl records))"

section \<open>DataTransformer: lag correlation of the External RFT tab\<close>

record monthEntry =
  month :: string
  externalRFT :: real
  internalRFT :: real
  externalCount :: nat
  internalCount :: nat

definition monthlyComparison ::
  "(string \<times> rawRecord list) list \<Rightarrow> (string \<times> rawRecord list) list \<Rightarrow> monthEntry list" where
  "monthlyComparison externalMonthlyGroups internalMonthlyGroups =
     (let allMonths = remdups (map fst externalMonthlyGroups @ map fst internalMonthlyGroups)
      in map (\<lambda>m.
                (let externalMonth = lookupGroup externalMonthlyGroups m;
                     internalMonth = lookupGroup internalMonthlyGroups m
                 in \<lparr>month = m,
                     externalRFT = calculateRFTRate externalMonth,
                     internalRFT = calculateRFTRate internalMonth,
                     externalCount = length externalMonth,
                     internalCount = length internalMonth\<rparr>))
             (sort allMonths))"

text \<open>
  The pairs built for one lag: the \<open>forEach\<close> over \<open>monthlyComparison\<close> with its index.
  The entry at \<open>index - lag\<close> exists whenever \<open>index \<ge> lag\<close>. A pair is (internal,
  external).
\<close>

definition lagPairs :: "monthEntry list \<Rightarrow> nat \<Rightarrow> (real \<times> real) list" where
  "lagPairs mc lag =
     List.map_filter
       (\<lambda>index.
          if index \<ge> lag
          then (let item = mc ! index; internalMonth = mc ! (index - lag)
                in if externalRFT item > 0 \<and> internalRFT internalMonth > 0
                   then Some (internalRFT internalMonth, externalRFT item)
                   else None)
          else None)
       [0..<length mc]"

text \<open>\<open>values.reduce((sum, val) => sum + val, 0) / values.length\<close>.\<close>

definition meanOf :: "(real \<Rightarrow> real) \<Rightarrow> real list \<Rightarrow> real" where
  "meanOf fl vs = fl (foldl (\<lambda>acc v. fl (acc + v)) 0 vs / real (length vs))"

text \<open>
  The \<open>for\<close> loop of the correlation over the indices of the pairs; the state is
  (numerator, denomInternalSum, denomExternalSum).
\<close>

definition correlationSums ::
  "(real \<Rightarrow> real) \<Rightarrow> real list \<Rightarrow> real list \<Rightarrow> real \<Rightarrow> real \<Rightarrow> real \<times> real \<times> real" where
  "correlationSums fl internalValues externalValues internalMean externalMean =
     foldl (\<lambda>(numerator, denomInternalSum, denomExternalSum) i.
              (let internalDiff = fl (internalValues ! i - internalMean);
                   externalDiff = fl (externalValues ! i - externalMean)
               in (fl (numerator + fl (internalDiff * externalDiff)),
                   fl (denomInternalSum + fl (internalDiff * internalDiff)),
                   fl (denomExternalSum + fl (externalDiff * externalDiff)))))
           (0, 0, 0) [0..<length internalValues]"

text \<open>
  The correlation computed inside \<open>if (pairs.length >= 3)\<close>; it is only evaluated on at
  least three pairs, so the two means divide by a positive length. Every sum, difference,
  product, quotient and the square root is rounded by \<open>fl\<close>, in the order in which
  the source computes them.
\<close>

definition pearson :: "(real \<Rightarrow> real) \<Rightarrow> (real \<times> real) list \<Rightarrow> real" where
  "pearson fl pairs =
     (let internalValues = map fst pairs;
          externalValues = map snd pairs;
          internalMean = meanOf fl internalValues;
          externalMean = meanOf fl externalValues;
          acc3 = correlationSums fl internalValues externalValues internalMean externalMean;
          denominator = fl (sqrt (fl (fst (snd acc3) * snd (snd acc3))))
      in if denominator = 0 then 0 else fl (fst acc3 / denominator))"

definition maxLag :: nat where
  "maxLag = 3"

text \<open>One round of the loop over the lags; the state is (bestCorrelation, bestLag).\<close>

definition lagStep :: "(real \<Rightarrow> real) \<Rightarrow> monthEntry list \<Rightarrow> real \<times> nat \<Rightarrow> nat \<Rightarrow> real \<times> nat" where
  "lagStep fl mc best lag =
     (let pairs = lagPairs mc lag
      in if length pairs \<ge> 3
         then (let correlation = pearson fl pairs
               in if \<bar>correlation\<bar> > \<bar>fst best\<bar> then (correlation, lag) else best)
         else best)"

definition lagCorrelation :: "(real \<Rightarrow> real) \<Rightarrow> monthEntry list \<Rightarrow> real \<times> nat" where
  "lagCorrelation fl mc = foldl (lagStep fl mc) (0, 0) [0..<maxLag + 1]"

section \<open>DataTransformer: bottleneck analysis of the Insights tab\<close>

record stage =
  stage_name :: string
  durationField :: "(rawRecord \<Rightarrow> fieldValue) option"
  calculateDuration :: "(rawRecord \<Rightarrow> real option) option"

text \<open>
  The \<open>calculateDuration\<close> of the Packaging stage, in days; \<open>None\<close> is \<open>null\<close>.
  The difference of two dates is a whole number of milliseconds.
\<close>

definition packagingDuration ::
  "(real \<Rightarrow> real) \<Rightarrow> (string \<Rightarrow> jsDate option) \<Rightarrow> rawRecord \<Rightarrow> real option" where
  "packagingDuration fl newDate record =
     (if truthyString (packaging_start record) \<and> truthyString (packaging_finish record)
      then (case (packaging_start record, packaging_finish record) of
              (Some s, Some f) \<Rightarrow>
                (case (newDate s, newDate f) of
                   (Some start, Some finish) \<Rightarrow>
                     Some (fl (real_of_int (getTime finish - getTime start)
                                 / (1000 * 60 * 60 * 24)))
                 | _ \<Rightarrow> None)
            | _ \<Rightarrow> None)
      else None)"

definition processStages :: "(real \<Rightarrow> real) \<Rightarrow> (string \<Rightarrow> jsDate option) \<Rightarrow> stage list" where
  "processStages fl newDate =
     [\<lparr>stage_name = ''Assembly'', durationField = Some assembly_cycle_time,
        calculateDuration = None\<rparr>,
      \<lparr>stage_name = ''PCI Review'', durationField = Some pci_wip_review_cycle_time,
        calculateDuration = None\<rparr>,
      \<lparr>stage_name = ''NN Review'', durationField = Some nn_wip_review_cycle_time,
        calculateDuration = None\<rparr>,
      \<lparr>stage_name = ''Packaging'', durationField = None,
        calculateDuration = Some (packagingDuration fl newDate)\<rparr>]"

record durationEntry =
  duration_batchId :: "string option"
  duration :: fieldValue

text \<open>
  The variable \<open>duration\<close> for one record in one stage: the field when the stage
  names one and the record holds a truthy value there, whatever its type; else the computed
  duration when the stage computes one; else \<open>null\<close>.
\<close>

definition stageDuration :: "stage \<Rightarrow> rawRecord \<Rightarrow> fieldValue" where
  "stageDuration st record =
     (let computed =
            (case calculateDuration st of
               None \<Rightarrow> NoValue
             | Some g \<Rightarrow> (case g record of None \<Rightarrow> NoValue | Some x \<Rightarrow> NumberValue x))
      in case durationField st of
           None \<Rightarrow> computed
         | Some f \<Rightarrow> if truthyValue (f record) then f record else computed)"

text \<open>
  The entries pushed for a stage: those with \<open>duration !== null && !isNaN(duration)\<close>,
  which a string passes when it converts to a number.
\<close>

definition stageDurations ::
  "(string \<Rightarrow> real option) \<Rightarrow> stage \<Rightarrow> rawRecord list \<Rightarrow> durationEntry list" where
  "stageDurations toNumber st records =
     List.map_filter
       (\<lambda>record.
          (let d = stageDuration st record
           in if d \<noteq> NoValue \<and> \<not> isNaN toNumber d
              then Some \<lparr>duration_batchId = batchId record, duration = d\<rparr>
              else None))
       records"

record outlier =
  outlier_batchId :: "string option"
  outlier_stage :: string
  outlier_duration :: fieldValue
  threshold :: real

text \<open>
  \<open>calculateStatistics(durations.map(d => d.duration))\<close>, which keeps the entries
  that are numbers, and \<open>stats.mean + 2 * stats.standardDeviation\<close>.
\<close>

definition durationStatistics :: "(real \<Rightarrow> real) \<Rightarrow> durationEntry list \<Rightarrow> statistics" where
  "durationStatistics fl durations =
     calculateStatisticsWith fl (map (\<lambda>d. numericEntry (duration d)) durations)"

definition outlierThreshold :: "(real \<Rightarrow> real) \<Rightarrow> durationEntry list \<Rightarrow> real" where
  "outlierThreshold fl durations =
     (let stats = durationStatistics fl durations
      in fl (mean stats + fl (2 * standardDeviation stats)))"

text \<open>The callback of the \<open>map\<close> that annotates a flagged duration.\<close>

definition flagOutlier :: "stage \<Rightarrow> real \<Rightarrow> durationEntry \<Rightarrow> outlier" where
  "flagOutlier st limit d =
     \<lparr>outlier_batchId = duration_batchId d, outlier_stage = stage_name st,
      outlier_duration = duration d, threshold = limit\<rparr>"

definition stageOutliers ::
  "(real \<Rightarrow> real) \<Rightarrow> (string \<Rightarrow> real option) \<Rightarrow> stage \<Rightarrow> durationEntry list \<Rightarrow> outlier list" where
  "stageOutliers fl toNumber st durations =
     map (flagOutlier st (outlierThreshold fl durations))
         (filter (\<lambda>d. atLeastNumber toNumber (duration d) (outlierThreshold fl durations))
            durations)"

record stageSummary =
  summary_name :: string
  summary_count :: nat
  avgDuration :: real
  medianDuration :: real
  minDuration :: real
  maxDuration :: real
  stdDev :: real

definition summarizeStage :: "(real \<Rightarrow> real) \<Rightarrow> stage \<Rightarrow> durationEntry list \<Rightarrow> stageSummary" where
  "summarizeStage fl st durations =
     (let stats = durationStatistics fl durations
      in \<lparr>summary_name = stage_name st, summary_count = length durations,
          avgDuration = mean stats, medianDuration = median stats,
          minDuration = stats_min stats, maxDuration = stats_max stats,
          stdDev = standardDeviation stats\<rparr>)"

record bottleneckAnalysis =
  stages :: "stageSummary list"
  bottleneck :: string
  outliers :: "outlier list"

text \<open>
  The \<open>forEach\<close> over the stages: a stage without durations adds nothing. Afterwards the
  stages are sorted by average duration and the outliers by duration, both descending; the
  duration of an outlier converts to a number, since it passed \<open>!isNaN\<close>.
\<close>

definition analyzeBottlenecks ::
  "(real \<Rightarrow> real) \<Rightarrow> (string \<Rightarrow> real option) \<Rightarrow> (string \<Rightarrow> jsDate option) \<Rightarrow> rawRecord list
     \<Rightarrow> bottleneckAnalysis" where
  "analyzeBottlenecks fl toNumber newDate records =
     (let perStage =
            map (\<lambda>st. (st, stageDurations toNumber st records)) (processStages fl newDate);
          measured = filter (\<lambda>(st, durations). durations \<noteq> []) perStage;
          summaries = sort_key (\<lambda>s. - avgDuration s)
                        (map (\<lambda>(st, durations). summarizeStage fl st durations) measured);
          found = concat (map (\<lambda>(st, durations). stageOutliers fl toNumber st durations) measured)
      in \<lparr>stages = summaries,
          bottleneck = (case summaries of [] \<Rightarrow> [] | s # _ \<Rightarrow> summary_name s),
          outliers =
            sort_key (\<lambda>out. - orZero (numberOf toNumber (outlier_duration out))) found\<rparr>)"

section \<open>DataTransformer: recurring issues of the Insights tab\<close>

record errorOccurrence =
  occurrence_type :: string
  occurrence_batchId :: "string option"
  occurrence_date :: "string option"

text \<open>
  \<open>allErrorTypes\<close>: one entry for every non-empty token of every record that has the
  error flag and a truthy \<open>errorTypes\<close>.
\<close>

definition allErrorTypes :: "rawRecord list \<Rightarrow> errorOccurrence list" where
  "allErrorTypes records =
     concat
       (map (\<lambda>record.
               (case errorTypes record of
                  None \<Rightarrow> []
                | Some et \<Rightarrow>
                    map (\<lambda>t. \<lparr>occurrence_type = t, occurrence_batchId = batchId record,
                                occurrence_date = assembly_start record\<rparr>)
                      (filter (\<lambda>t. t \<noteq> []) (tokensOf et))))
          (filter (\<lambda>r. hasErrors r \<and> truthyErrorTypes (errorTypes r)) records))"

record recurringIssue =
  issue_type :: string
  occurrences :: nat
  batches :: "string option list"

text \<open>
  The error types with at least three occurrences, most frequent first. The fields
  \<open>firstSeen\<close> and \<open>lastSeen\<close> are left out.
\<close>

definition recurringIssuesOf :: "(string \<times> errorOccurrence list) list \<Rightarrow> recurringIssue list" where
  "recurringIssuesOf groupedErrors =
     sort_key (\<lambda>issue. - int (occurrences issue))
       (map (\<lambda>(t, found). \<lparr>issue_type = t, occurrences = length found,
                              batches = map occurrence_batchId found\<rparr>)
          (filter (\<lambda>(t, found). length found \<ge> 3) (objectEntries groupedErrors)))"

section \<open>DataTransformer: section transformers\<close>

text \<open>
  The output document. A section that is still the empty object \<open>{}\<close> of the constructor
  is \<open>None\<close>: reading any property of it, \<open>recordCount\<close> included, gives
  \<open>undefined\<close>. The sections keep the fields the properties below speak about; the
  cycle-time averages, the monthly metrics and the improvement summary of the overview, the
  error Pareto, the process comparison, the problematic lots, the observation texts, the
  correlations, the seasonal trends and the recommendations are left out. So is the Process
  Metrics tab, whose transformer assigns its own section only, and so are the two
  placeholder tabs.
\<close>

record overviewSection =
  totalRecords :: nat
  overallRFTRate :: real
  topIssues :: "errorTypeEntry list"
  passCount :: nat
  failCount :: nat

record monthlyRate =
  rate_month :: string
  rftRate :: real
  rate_recordCount :: nat

record internalSection =
  internal_recordCount :: nat
  internal_internalRFT :: real
  monthlyRFT :: "monthlyRate list"

record impactAnalysis =
  correlation :: real
  lagTime :: nat

record externalSection =
  external_recordCount :: nat
  external_externalRFT :: real
  external_internalRFT :: real
  external_monthlyComparison :: "monthEntry list"
  external_topIssues :: "errorTypeEntry list"
  external_impactAnalysis :: impactAnalysis

record insightsSection =
  insights_bottleneckAnalysis :: bottleneckAnalysis
  recurringIssues :: "recurringIssue list"

record dashboard =
  overview :: "overviewSection option"
  internalRFTSection :: "internalSection option"
  externalRFTSection :: "externalSection option"
  insights :: "insightsSection option"

definition initialDashboard :: dashboard where
  "initialDashboard =
     \<lparr>overview = None, internalRFTSection = None, externalRFTSection = None, insights = None\<rparr>"

text \<open>
  An element of the input array is an object or \<open>null\<close>/\<open>undefined\<close> (\<open>None\<close>).
  Every transformer first runs a \<open>filter\<close> or \<open>map\<close> that reads a property of each
  element, which throws a TypeError at an element that is no object. The only other
  exception in the modelled code is that of \<open>groupBy\<close>.
\<close>

definition objects :: "rawRecord option list \<Rightarrow> jsError + rawRecord list" where
  "objects rs = (if None \<in> set rs then Inl TypeError else Inr (List.map_filter (\<lambda>r. r) rs))"

text \<open>
  The body of the \<open>try\<close> block of each transformer: \<open>Inl\<close> is a thrown exception,
  \<open>Inr None\<close> an early \<open>return\<close> that assigns nothing, \<open>Inr (Some s)\<close> the section
  that is assigned.
\<close>

definition overviewBody ::
  "(real \<Rightarrow> real) \<Rightarrow> rawRecord option list \<Rightarrow> jsError + overviewSection option" where
  "overviewBody fl rs =
     (if rs = [] then Inr None
      else (case objects rs of
              Inl e \<Rightarrow> Inl e
            | Inr records \<Rightarrow>
                Inr (Some \<lparr>totalRecords = length records,
                           overallRFTRate = calculateRFTRate records,
                           topIssues = analyzeErrorTypes fl records (Some 3),
                           passCount = length (filter (\<lambda>r. \<not> hasErrors r) records),
                           failCount = length (filter (\<lambda>r. hasErrors r) records)\<rparr>)))"

definition isInternal :: "rawRecord \<Rightarrow> bool" where
  "isInternal r = (source r = Some ''Process'' \<or> source r = Some ''Internal'')"

definition isExternal :: "rawRecord \<Rightarrow> bool" where
  "isExternal r = (source r = Some ''External'')"

definition internalBody ::
  "(string \<Rightarrow> jsDate option) \<Rightarrow> rawRecord option list \<Rightarrow> jsError + internalSection option" where
  "internalBody newDate rs =
     (if rs = [] then Inr None
      else (case objects rs of
              Inl e \<Rightarrow> Inl e
            | Inr records \<Rightarrow>
                (let internalRecords = filter isInternal records
                 in if internalRecords = [] then Inr None
                    else
                      (let monthlyGroups = groupRecordsByMonth newDate internalRecords None None
                       in Inr (Some
                            \<lparr>internal_recordCount = length internalRecords,
                             internal_internalRFT = calculateRFTRate internalRecords,
                             monthlyRFT =
                               map (\<lambda>(m, monthRecords).
                                      \<lparr>rate_month = m, rftRate = calculateRFTRate monthRecords,
                                       rate_recordCount = length monthRecords\<rparr>)
                                   monthlyGroups\<rparr>)))))"

definition externalBody ::
  "(real \<Rightarrow> real) \<Rightarrow> (string \<Rightarrow> jsDate option) \<Rightarrow> rawRecord option list
     \<Rightarrow> jsError + externalSection option" where
  "externalBody fl newDate rs =
     (if rs = [] then Inr None
      else (case objects rs of
              Inl e \<Rightarrow> Inl e
            | Inr records \<Rightarrow>
                (let externalRecords = filter isExternal records
                 in if externalRecords = [] then Inr None
                    else
                      (let internalRecords = filter isInternal records;
                           comparison =
                             monthlyComparison
                               (groupRecordsByMonth newDate externalRecords None None)
                               (groupRecordsByMonth newDate internalRecords None None);
                           best = lagCorrelation fl comparison
                       in Inr (Some
                            \<lparr>external_recordCount = length externalRecords,
                             external_externalRFT = calculateRFTRate externalRecords,
                             external_internalRFT = calculateRFTRate internalRecords,
                             external_monthlyComparison = comparison,
                             external_topIssues =
                               analyzeErrorTypes fl (filter (\<lambda>r. hasErrors r) externalRecords)
                                 (Some 5),
                             external_impactAnalysis =
                               \<lparr>correlation = fst best, lagTime = snd best\<rparr>\<rparr>)))))"

text \<open>
  The Insights transformer: the bottleneck analysis, then the recurring issues, for which
  \<open>groupBy(allErrorTypes, 'type')\<close> is called; when that throws, nothing is
  assigned.
\<close>

definition insightsBody ::
  "(real \<Rightarrow> real) \<Rightarrow> (string \<Rightarrow> real option) \<Rightarrow> (string \<Rightarrow> jsDate option)
     \<Rightarrow> rawRecord option list \<Rightarrow> jsError + insightsSection option" where
  "insightsBody fl toNumber newDate rs =
     (if rs = [] then Inr None
      else (case objects rs of
              Inl e \<Rightarrow> Inl e
            | Inr records \<Rightarrow>
                (let analysis = analyzeBottlenecks fl toNumber newDate records
                 in case groupBy occurrence_type (allErrorTypes records) of
                      Inl e \<Rightarrow> Inl e
                    | Inr groupedErrors \<Rightarrow>
                        Inr (Some \<lparr>insights_bottleneckAnalysis = analysis,
                                   recurringIssues = recurringIssuesOf groupedErrors\<rparr>))))"

text \<open>
  \<open>try { ... } catch (error) { console.error(...) }\<close> around a body: a thrown
  exception and an early return both leave the section as it was.
\<close>

definition caught :: "jsError + 'a option \<Rightarrow> 'a option \<Rightarrow> 'a option" where
  "caught body old = (case body of Inl e \<Rightarrow> old | Inr None \<Rightarrow> old | Inr (Some s) \<Rightarrow> Some s)"

definition transformOverviewData ::
  "(real \<Rightarrow> real) \<Rightarrow> rawRecord option list \<Rightarrow> dashboard \<Rightarrow> dashboard" where
  "transformOverviewData fl rs d = d\<lparr>overview := caught (overviewBody fl rs) (overview d)\<rparr>"

definition transformInternalRFTData ::
  "(string \<Rightarrow> jsDate option) \<Rightarrow> rawRecord option list \<Rightarrow> dashboard \<Rightarrow> dashboard" where
  "transformInternalRFTData newDate rs d =
     d\<lparr>internalRFTSection := caught (internalBody newDate rs) (internalRFTSection d)\<rparr>"

definition transformExternalRFTData ::
  "(real \<Rightarrow> real) \<Rightarrow> (string \<Rightarrow> jsDate option) \<Rightarrow> rawRecord option list \<Rightarrow> dashboard
     \<Rightarrow> dashboard" where
  "transformExternalRFTData fl newDate rs d =
     d\<lparr>externalRFTSection := caught (externalBody fl newDate rs) (externalRFTSection d)\<rparr>"

definition transformInsightsData ::
  "(real \<Rightarrow> real) \<Rightarrow> (string \<Rightarrow> real option) \<Rightarrow> (string \<Rightarrow> jsDate option)
     \<Rightarrow> rawRecord option list \<Rightarrow> dashboard \<Rightarrow> dashboard" where
  "transformInsightsData fl toNumber newDate rs d =
     d\<lparr>insights := caught (insightsBody fl toNumber newDate rs) (insights d)\<rparr>"

text \<open>
  \<open>transformData()\<close> on a fresh transformer whose raw records are \<open>rs\<close>: the
  transformers run in the order of the source, each on the document left by the last. No
  exception leaves a transformer, so the \<open>catch\<close> of \<open>transformData\<close> itself is
  never entered.
\<close>

definition transformData ::
  "(real \<Rightarrow> real) \<Rightarrow> (string \<Rightarrow> real option) \<Rightarrow> (string \<Rightarrow> jsDate option)
     \<Rightarrow> rawRecord option list \<Rightarrow> dashboard" where
  "transformData fl toNumber newDate rs =
     transformInsightsData fl toNumber newDate rs
       (transformExternalRFTData fl newDate rs
          (transformInternalRFTData newDate rs
             (transformOverviewData fl rs initialDashboard)))"

text \<open>Reading \<open>section.recordCount\<close>: \<open>None\<close> is \<open>undefined\<close>.\<close>

definition internalRecordCount :: "dashboard \<Rightarrow> nat option" where
  "internalRecordCount d = map_option internal_recordCount (internalRFTSection d)"

definition externalRecordCount :: "dashboard \<Rightarrow> nat option" where
  "externalRecordCount d = map_option external_recordCount (externalRFTSection d)"

definition overviewTotalRecords :: "dashboard \<Rightarrow> nat option" where
  "overviewTotalRecords d = map_option totalRecords (overview d)"

section \<open>ExcelProcessor: the overview of the assembled document\<close>

record excelRecord =
  lot :: string

record internalRftData =
  internal_records :: "excelRecord list"
  summary_rftRate :: string

record externalRftData =
  external_records :: "excelRecord list"
  summary_resolutionRate :: string

record commercialProcessData =
  commercial_records :: "excelRecord list"
  summary_completionRate :: string

record overviewStats =
  stats_totalRecords :: nat
  totalLots :: nat
  stats_overallRFTRate :: real

text \<open>
  The weighted sum \<open>(internalRFT * 0.4) + (100 - externalRFT) * 0.3 + (commercialRFT * 0.3)\<close>,
  evaluated from left to right. The literals \<open>0.4\<close> and \<open>0.3\<close> are the numbers
  nearest to four and three tenths.
\<close>

definition weightedRFT :: "(real \<Rightarrow> real) \<Rightarrow> real \<Rightarrow> real \<Rightarrow> real \<Rightarrow> real" where
  "weightedRFT fl internalRate externalRate commercialRate =
     fl (fl (fl (internalRate * fl (4 / 10)) + fl (fl (100 - externalRate) * fl (3 / 10)))
           + fl (commercialRate * fl (3 / 10)))"

text \<open>
  \<open>generateOverview\<close>, its \<open>stats\<close> object. The rates of the summaries are the strings
  written by \<open>toFixed(1)\<close>; \<open>stats.overallRFTRate\<close> is again such a string and is
  modelled by the number it denotes. In \<open>100 - parseFloat(...) || 0\<close> the subtraction
  binds tighter than \<open>||\<close>.
\<close>

definition generateOverview ::
  "(real \<Rightarrow> real) \<Rightarrow> internalRftData \<Rightarrow> externalRftData \<Rightarrow> commercialProcessData
     \<Rightarrow> overviewStats" where
  "generateOverview fl internalData externalData commercialData =
     (let allRecords =
            internal_records internalData @ external_records externalData
              @ commercial_records commercialData;
          lots = remdups (filter (\<lambda>l. l \<noteq> []) (map lot allRecords));
          internalRate = orZero (parseFloat fl (summary_rftRate internalData));
          externalRate =
            orZero (map_option (\<lambda>r. fl (100 - r))
                      (parseFloat fl (summary_resolutionRate externalData)));
          commercialRate = orZero (parseFloat fl (summary_completionRate commercialData));
          overallRFT = toFixed1 (weightedRFT fl internalRate externalRate commercialRate)
      in \<lparr>stats_totalRecords = length allRecords, totalLots = length lots,
          stats_overallRFTRate = overallRFT\<rparr>)"

section \<open>Notions used to state the properties\<close>

text \<open>
  The month a record is filed under: none when the date field is missing, empty,
  \<open>'N/A'\<close> or not a date.
\<close>

definition recordMonth ::
  "(string \<Rightarrow> jsDate option) \<Rightarrow> (rawRecord \<Rightarrow> string option) \<Rightarrow> rawRecord \<Rightarrow> string option" where
  "recordMonth newDate dateField r =
     (case dateField r of
        None \<Rightarrow> None
      | Some s \<Rightarrow> if s = [] \<or> s = ''N/A'' then None else map_option monthKey (newDate s))"

text \<open>
  The tokens a record contributes to the ranking, and the tokens of all records that carry
  the error flag, in input order.
\<close>

definition recordTokens :: "rawRecord \<Rightarrow> string list" where
  "recordTokens r =
     (case errorTypes r of None \<Rightarrow> [] | Some et \<Rightarrow> filter (\<lambda>t. t \<noteq> []) (tokensOf et))"

definition errorTokens :: "rawRecord list \<Rightarrow> string list" where
  "errorTokens records = concat (map recordTokens (filter (\<lambda>r. hasErrors r) records))"


text \<open>The running totals of a list of values, started at \<open>a\<close>.\<close>

fun partialSums :: "real \<Rightarrow> real list \<Rightarrow> real list" where
  "partialSums a [] = []"
| "partialSums a (v # vs) = (a + v) # partialSums (a + v) vs"


section \<open>Sample inputs\<close>

text \<open>A record with no property set, the starting point of the concrete inputs below.\<close>

definition blankRecord :: rawRecord where
  "blankRecord =
     \<lparr>batchId = None, source = None, hasErrors = False, errorTypes = None,
      assembly_start = None, assembly_cycle_time = NoValue, pci_wip_review_cycle_time = NoValue,
      nn_wip_review_cycle_time = NoValue, packaging_start = None, packaging_finish = None\<rparr>"

text \<open>
  The double nearest to 0.1, and the doubles met when three of them are added and the sum
  is divided by 3: 0.2, 0.30000000000000004 and 0.10000000000000002.
\<close>

definition tenth :: real where
  "tenth = 3602879701896397 / 36028797018963968"

definition twoTenths :: real where
  "twoTenths = 3602879701896397 / 18014398509481984"

definition threeTenths :: real where
  "threeTenths = 5404319552844596 / 18014398509481984"

definition meanOfTenths :: real where
  "meanOfTenths = 7205759403792795 / 72057594037927936"

text \<open>The doubles nearest to 0.4 and 0.3, the weights of the overall RFT.\<close>

definition fourTenths :: real where
  "fourTenths = 3602879701896397 / 9007199254740992"

definition nearThreeTenths :: real where
  "nearThreeTenths = 5404319552844595 / 18014398509481984"




definition sampleNumber :: "string \<Rightarrow> real option" where
  "sampleNumber s = (if s = ''1.0'' then Some 1 else if s = ''6.0'' then Some 6 else None)"

text \<open>
  Four months of a monthly comparison. The external rate of the first month is 0, so lag 0
  and lag 1 both give three pairs, and both are perfectly correlated.
\<close>

definition sampleMonth :: "string \<Rightarrow> real \<Rightarrow> real \<Rightarrow> monthEntry" where
  "sampleMonth m extRate intRate =
     \<lparr>month = m, externalRFT = extRate, internalRFT = intRate, externalCount = 4,
      internalCount = 4\<rparr>"

definition sampleComparison :: "monthEntry list" where
  "sampleComparison =
     [sampleMonth ''2024-01'' 0 25, sampleMonth ''2024-02'' 25 50,
      sampleMonth ''2024-03'' 50 75, sampleMonth ''2024-04'' 75 100]"





text \<open>
  A stand-in for the constructor \<open>Date\<close> on three ISO dates (read in UTC), and six
  records: three with these dates, one with \<open>'N/A'\<close>, one with a string that is no
  date and one without the field.
\<close>

definition sampleDate :: "string \<Rightarrow> jsDate option" where
  "sampleDate s =
     (if s = ''2024-01-15'' then Some \<lparr>getTime = 1705276800000, getFullYear = 2024, getMonth = 0\<rparr>
      else if s = ''2024-02-20'' then Some \<lparr>getTime = 1708387200000, getFullYear = 2024, getMonth = 1\<rparr>
      else if s = ''2023-12-05'' then Some \<lparr>getTime = 1701734400000, getFullYear = 2023, getMonth = 11\<rparr>
      else None)"

definition datedRecord :: "string \<Rightarrow> rawRecord" where
  "datedRecord s = blankRecord\<lparr>assembly_start := Some s\<rparr>"

definition sampleDated :: "rawRecord list" where
  "sampleDated =
     [datedRecord ''2024-01-15'', datedRecord ''2023-12-05'', datedRecord ''2024-02-20'',
      datedRecord ''N/A'', datedRecord ''soon'', blankRecord]"

text \<open>A record with the error flag set and the given \<open>errorTypes\<close> value.\<close>

definition flaggedRecord :: "errorTypeField \<Rightarrow> rawRecord" where
  "flaggedRecord et = blankRecord\<lparr>hasErrors := True, errorTypes := Some et\<rparr>"

section \<open>Sums and sorted lists\<close>

lemma foldl_add_sum_list: "foldl (\<lambda>acc v. acc + v) a ys = a + sum_list (ys :: real list)"
  by (induction ys arbitrary: a) simp_all

lemma sum_list_lower: "(\<forall>x\<in>set ys. a \<le> x) \<Longrightarrow> a * real (length ys) \<le> sum_list (ys :: real list)"
  by (induction ys) (auto simp: algebra_simps)

lemma sum_list_upper: "(\<forall>x\<in>set ys. x \<le> b) \<Longrightarrow> sum_list (ys :: real list) \<le> b * real (length ys)"
  by (induction ys) (auto simp: algebra_simps)

section \<open>The RFT rate\<close>

text \<open>
  Claim C6. The RFT rate of a record list is the number of records without an error flag
  divided by the number of records, times 100; it is 0 for the empty list; it always lies
  between 0 and 100; and a list that is not empty and has no flagged record has rate 100.
\<close>

theorem calculateRFTRate_range:
  "calculateRFTRate [] = 0
   \<and> calculateRFTRate rs =
       (if rs = [] then 0
        else real (length (filter (\<lambda>r. \<not> hasErrors r) rs)) / real (length rs) * 100)
   \<and> 0 \<le> calculateRFTRate rs \<and> calculateRFTRate rs \<le> 100
   \<and> (rs \<noteq> [] \<and> (\<forall>r\<in>set rs. \<not> hasErrors r) \<longrightarrow> calculateRFTRate rs = 100)"
proof -
  have le: "real (length (filter (\<lambda>r. \<not> hasErrors r) rs)) \<le> real (length rs)"
    by simp
  have upper: "calculateRFTRate rs \<le> 100"
  proof (cases "rs = []")
    case True
    then show ?thesis by (simp add: calculateRFTRate_def)
  next
    case False
    then have pos: "0 < real (length rs)" by simp
    have "real (length (filter (\<lambda>r. \<not> hasErrors r) rs)) * 100 / real (length rs) \<le> 100"
      using le pos by (simp add: divide_le_eq)
    then show ?thesis using False by (simp add: calculateRFTRate_def)
  qed
  have lower: "0 \<le> calculateRFTRate rs"
    by (simp add: calculateRFTRate_def)
  have allpass: "rs \<noteq> [] \<and> (\<forall>r\<in>set rs. \<not> hasErrors r) \<longrightarrow> calculateRFTRate rs = 100"
  proof
    assume h: "rs \<noteq> [] \<and> (\<forall>r\<in>set rs. \<not> hasErrors r)"
    then have "filter (\<lambda>r. \<not> hasErrors r) rs = rs" by (simp add: filter_id_conv)
    then show "calculateRFTRate rs = 100" using h by (simp add: calculateRFTRate_def)
  qed
  show ?thesis using upper lower allpass by (simp add: calculateRFTRate_def)
qed

theorem calculateRFTRate_range_witness:
  "calculateRFTRate [blankRecord, blankRecord] = 100
   \<and> calculateRFTRate [blankRecord, blankRecord\<lparr>hasErrors := True\<rparr>] = 50"
proof -
  have h: "[blankRecord, blankRecord] \<noteq> [] \<and> (\<forall>r\<in>set [blankRecord, blankRecord]. \<not> hasErrors r)"
    by (simp add: blankRecord_def)
  have "[blankRecord, blankRecord] \<noteq> [] \<and> (\<forall>r\<in>set [blankRecord, blankRecord]. \<not> hasErrors r)
          \<longrightarrow> calculateRFTRate [blankRecord, blankRecord] = 100"
    using calculateRFTRate_range [of "[blankRecord, blankRecord]"] by blast
  then have full: "calculateRFTRate [blankRecord, blankRecord] = 100"
    using h by (rule mp)
  have half: "calculateRFTRate [blankRecord, blankRecord\<lparr>hasErrors := True\<rparr>] = 50"
    by (simp add: blankRecord_def calculateRFTRate_def)
  show ?thesis using full half by (intro conjI) assumption+
qed

section \<open>Statistics of a numeric array\<close>

lemma map_filter_Some: "List.map_filter (\<lambda>v. v) (map Some xs) = xs"
  by (induction xs) (simp_all add: List.map_filter_def)

lemma sum_list_sort: "sum_list (sort xs) = sum_list (xs :: real list)"
proof -
  have "sum_mset (mset (sort xs)) = sum_mset (mset xs)" by simp
  then show ?thesis by (simp only: sum_mset_sum_list)
qed

lemma sorted_first_le:
  assumes "sorted (s :: real list)" and "x \<in> set s"
  shows "s ! 0 \<le> x"
proof -
  from assms(2) obtain i where i: "i < length s" "s ! i = x" by (auto simp: in_set_conv_nth)
  then have "s ! 0 \<le> s ! i" using assms(1) by (intro sorted_nth_mono) simp_all
  then show ?thesis using i by simp
qed

lemma sorted_le_last:
  assumes "sorted (s :: real list)" and "x \<in> set s"
  shows "x \<le> s ! (length s - 1)"
proof -
  from assms(2) obtain i where i: "i < length s" "s ! i = x" by (auto simp: in_set_conv_nth)
  then have "s ! i \<le> s ! (length s - 1)" using assms(1) by (intro sorted_nth_mono) simp_all
  then show ?thesis using i by simp
qed

lemma calculateStatistics_numeric:
  assumes "xs \<noteq> []"
  shows "calculateStatistics (map Some xs) =
           \<lparr>stats_min = sort xs ! 0, stats_max = sort xs ! (length xs - 1),
            mean = sum_list xs / real (length xs),
            median = (if even (length xs)
                      then (sort xs ! (length xs div 2 - 1) + sort xs ! (length xs div 2)) / 2
                      else sort xs ! (length xs div 2)),
            standardDeviation =
              sqrt (sum_list (map (\<lambda>v. (v - sum_list xs / real (length xs))
                                         * (v - sum_list xs / real (length xs))) xs)
                    / real (length xs))\<rparr>"
proof -
  have sq: "sum_list (map f (sort xs)) = sum_list (map f xs)" for f :: "real \<Rightarrow> real"
  proof -
    have "sum_mset (image_mset f (mset (sort xs))) = sum_mset (image_mset f (mset xs))" by simp
    then show ?thesis by (metis mset_map sum_mset_sum_list)
  qed
  show ?thesis
    using assms
    by (simp add: calculateStatistics_def calculateStatisticsWith_def map_filter_Some Let_def
        foldl_add_sum_list
        sum_list_sort sq even_iff_mod_2_eq_zero)
qed

text \<open>
  Claim C7, as amended. The statistics of the empty list are all zero, a value and not an
  error. For every non-empty array of numbers, in exact arithmetic, the minimum is at most
  the median and the mean, and these are at most the maximum; the minimum and maximum are
  the least and greatest element, the mean is the sum divided by the length, and the median
  is read from a sorted copy: the average of the two middle elements for an even length,
  the middle element for an odd one. In the arithmetic of doubles the bound on the mean
  fails: the mean of three times 0.1 is 0.10000000000000002, above the maximum 0.1.
\<close>

theorem calculateStatistics_bounds:
  "calculateStatistics [] =
     \<lparr>stats_min = 0, stats_max = 0, mean = 0, median = 0, standardDeviation = 0\<rparr>
   \<and> (xs \<noteq> [] \<longrightarrow>
        (let st = calculateStatistics (map Some xs); n = length xs; sortedCopy = sort xs
         in stats_min st \<le> median st \<and> median st \<le> stats_max st
            \<and> stats_min st \<le> mean st \<and> mean st \<le> stats_max st
            \<and> stats_min st = Min (set xs) \<and> stats_max st = Max (set xs)
            \<and> mean st = sum_list xs / real n
            \<and> median st =
                (if even n then (sortedCopy ! (n div 2 - 1) + sortedCopy ! (n div 2)) / 2
                 else sortedCopy ! (n div 2))))"
proof (intro conjI impI)
  show "calculateStatistics [] =
     \<lparr>stats_min = 0, stats_max = 0, mean = 0, median = 0, standardDeviation = 0\<rparr>"
    by (simp add: calculateStatistics_def calculateStatisticsWith_def zeroStatistics_def)
next
  assume ne: "xs \<noteq> []"
  define s where "s = sort xs"
  define n where "n = length xs"
  have srt: "sorted s" and len: "length s = n" and sets: "set s = set xs"
    by (simp_all add: s_def n_def)
  have npos: "0 < n" using ne by (simp add: n_def)
  have lo_le: "s ! 0 \<le> x" if "x \<in> set s" for x using sorted_first_le [OF srt that] .
  have le_hi: "x \<le> s ! (n - 1)" if "x \<in> set s" for x using sorted_le_last [OF srt that] len by simp
  have mem: "s ! i \<in> set s" if "i < n" for i using that len by simp
  have lo_min: "s ! 0 = Min (set xs)"
  proof (rule sym, rule Min_eqI)
    show "finite (set xs)" by simp
    show "s ! 0 \<le> y" if "y \<in> set xs" for y using lo_le that sets by simp
    show "s ! 0 \<in> set xs" using mem [of 0] npos sets by simp
  qed
  have hi_max: "s ! (n - 1) = Max (set xs)"
  proof (rule sym, rule Max_eqI)
    show "finite (set xs)" by simp
    show "y \<le> s ! (n - 1)" if "y \<in> set xs" for y using le_hi that sets by simp
    show "s ! (n - 1) \<in> set xs" using mem [of "n - 1"] npos sets by simp
  qed
  have sum_lo: "s ! 0 * real n \<le> sum_list xs"
    using sum_list_lower [of s "s ! 0"] lo_le len by (simp add: s_def sum_list_sort)
  have sum_hi: "sum_list xs \<le> s ! (n - 1) * real n"
    using sum_list_upper [of s "s ! (n - 1)"] le_hi len by (simp add: s_def sum_list_sort)
  have mean_lo: "s ! 0 \<le> sum_list xs / real n"
    using sum_lo npos by (simp add: le_divide_eq)
  have mean_hi: "sum_list xs / real n \<le> s ! (n - 1)"
    using sum_hi npos by (simp add: divide_le_eq)
  define med where "med = (if even n then (s ! (n div 2 - 1) + s ! (n div 2)) / 2 else s ! (n div 2))"
  have mid: "n div 2 < n" using npos by simp
  have med_bounds: "s ! 0 \<le> med \<and> med \<le> s ! (n - 1)"
  proof (cases "even n")
    case True
    then have "n div 2 - 1 < n" using npos by simp
    then have a: "s ! 0 \<le> s ! (n div 2 - 1)" "s ! (n div 2 - 1) \<le> s ! (n - 1)"
      using lo_le le_hi mem by simp_all
    have b: "s ! 0 \<le> s ! (n div 2)" "s ! (n div 2) \<le> s ! (n - 1)"
      using lo_le le_hi mem mid by simp_all
    show ?thesis using True a b by (simp add: med_def)
  next
    case False
    then show ?thesis using lo_le le_hi mem mid by (simp add: med_def)
  qed
  have eq: "calculateStatistics (map Some xs) =
           \<lparr>stats_min = s ! 0, stats_max = s ! (n - 1), mean = sum_list xs / real n, median = med,
            standardDeviation =
              sqrt (sum_list (map (\<lambda>v. (v - sum_list xs / real n) * (v - sum_list xs / real n)) xs)
                    / real n)\<rparr>"
    using calculateStatistics_numeric [OF ne] by (simp add: s_def n_def med_def)
  show "let st = calculateStatistics (map Some xs); n = length xs; sortedCopy = sort xs
         in stats_min st \<le> median st \<and> median st \<le> stats_max st
            \<and> stats_min st \<le> mean st \<and> mean st \<le> stats_max st
            \<and> stats_min st = Min (set xs) \<and> stats_max st = Max (set xs)
            \<and> mean st = sum_list xs / real n
            \<and> median st =
                (if even n then (sortedCopy ! (n div 2 - 1) + sortedCopy ! (n div 2)) / 2
                 else sortedCopy ! (n div 2))"
    unfolding Let_def eq
    using med_bounds mean_lo mean_hi lo_min hi_max
    by (simp add: med_def s_def n_def)
qed

theorem calculateStatistics_bounds_witness:
  "stats_min (calculateStatistics (map Some [4, 1, 3, 2]))
     \<le> mean (calculateStatistics (map Some [4, 1, 3, 2]))
   \<and> mean (calculateStatistics (map Some [4, 1, 3, 2]))
     \<le> stats_max (calculateStatistics (map Some [4, 1, 3, 2]))
   \<and> calculateStatistics (map Some [4, 1, 3, 2]) =
       \<lparr>stats_min = 1, stats_max = 4, mean = 5 / 2, median = 5 / 2,
        standardDeviation = sqrt (5 / 4)\<rparr>
   \<and> median (calculateStatistics (map Some [7, 1, 3])) = 3"
proof -
  have ne: "[4, 1, 3, 2 :: real] \<noteq> []" by simp
  have "[4, 1, 3, 2 :: real] \<noteq> [] \<longrightarrow>
        (let st = calculateStatistics (map Some [4, 1, 3, 2]); n = length [4, 1, 3, 2 :: real];
             sortedCopy = sort [4, 1, 3, 2 :: real]
         in stats_min st \<le> median st \<and> median st \<le> stats_max st
            \<and> stats_min st \<le> mean st \<and> mean st \<le> stats_max st
            \<and> stats_min st = Min (set [4, 1, 3, 2]) \<and> stats_max st = Max (set [4, 1, 3, 2])
            \<and> mean st = sum_list [4, 1, 3, 2] / real n
            \<and> median st =
                (if even n then (sortedCopy ! (n div 2 - 1) + sortedCopy ! (n div 2)) / 2
                 else sortedCopy ! (n div 2)))"
    using calculateStatistics_bounds [of "[4, 1, 3, 2]"] by (rule conjunct2)
  then have bounds:
    "stats_min (calculateStatistics (map Some [4, 1, 3, 2]))
       \<le> mean (calculateStatistics (map Some [4, 1, 3, 2]))
     \<and> mean (calculateStatistics (map Some [4, 1, 3, 2]))
       \<le> stats_max (calculateStatistics (map Some [4, 1, 3, 2]))"
    using ne unfolding Let_def by blast
  have even_case: "calculateStatistics (map Some [4, 1, 3, 2]) =
       \<lparr>stats_min = 1, stats_max = 4, mean = 5 / 2, median = 5 / 2,
        standardDeviation = sqrt (5 / 4)\<rparr>"
    by (simp add: calculateStatistics_def calculateStatisticsWith_def List.map_filter_def Let_def)
  have odd_case: "median (calculateStatistics (map Some [7, 1, 3])) = 3"
    by (simp add: calculateStatistics_def calculateStatisticsWith_def List.map_filter_def Let_def)
  show ?thesis
    using bounds even_case odd_case by (intro conjI; (elim conjE)?) assumption+
qed

lemma tenth_rounding:
  "roundToDouble (0 + tenth) = tenth"
  "roundToDouble (tenth + tenth) = twoTenths"
  "roundToDouble (twoTenths + tenth) = threeTenths"
  "roundToDouble (threeTenths / 3) = meanOfTenths"
  by (simp_all add: roundToDouble_def tenth_def twoTenths_def threeTenths_def meanOfTenths_def
      binaryExponent.simps ulpAt_def roundHalfEven_def Let_def)

lemma calculateStatisticsWith_mean_max:
  assumes "xs \<noteq> []"
  shows "mean (calculateStatisticsWith fl (map Some xs))
           = fl (foldl (\<lambda>acc v. fl (acc + v)) 0 (sort xs) / real (length xs))"
    and "stats_max (calculateStatisticsWith fl (map Some xs)) = sort xs ! (length xs - 1)"
  using assms by (simp_all add: calculateStatisticsWith_def map_filter_Some Let_def)

theorem calculateStatistics_bounds_counterexample:
  "mean (calculateStatisticsWith roundToDouble (map Some [tenth, tenth, tenth])) = meanOfTenths
   \<and> stats_max (calculateStatisticsWith roundToDouble (map Some [tenth, tenth, tenth])) = tenth
   \<and> stats_max (calculateStatisticsWith roundToDouble (map Some [tenth, tenth, tenth]))
       < mean (calculateStatisticsWith roundToDouble (map Some [tenth, tenth, tenth]))"
proof -
  have ne: "[tenth, tenth, tenth] \<noteq> []" by simp
  have srt: "sort [tenth, tenth, tenth] = [tenth, tenth, tenth]" by simp
  have len: "real (length [tenth, tenth, tenth]) = 3" by simp
  have total: "foldl (\<lambda>acc v. roundToDouble (acc + v)) 0 [tenth, tenth, tenth] = threeTenths"
    by (simp only: foldl.simps tenth_rounding)
  have m: "mean (calculateStatisticsWith roundToDouble (map Some [tenth, tenth, tenth]))
             = meanOfTenths"
    unfolding calculateStatisticsWith_mean_max(1) [OF ne] srt len total
    by (rule tenth_rounding(4))
  have x: "stats_max (calculateStatisticsWith roundToDouble (map Some [tenth, tenth, tenth])) = tenth"
    unfolding calculateStatisticsWith_mean_max(2) [OF ne] srt by simp
  have lt: "tenth < meanOfTenths" by (simp add: tenth_def meanOfTenths_def)
  show ?thesis unfolding m x using lt by simp
qed

section \<open>Pareto ranking\<close>

lemma toFixed1_mono:
  assumes "0 \<le> x" and "x \<le> y"
  shows "toFixed1 x \<le> toFixed1 y"
proof -
  have y0: "0 \<le> y" using assms by simp
  consider (small) "y < 10 ^ 21" | (big) "10 ^ 21 \<le> x" | (mixed) "x < 10 ^ 21" "10 ^ 21 \<le> y"
    using assms by linarith
  then show ?thesis
  proof cases
    case small
    then have xs: "x < 10 ^ 21" using assms by simp
    have "\<lfloor>x * 10 + 1 / 2\<rfloor> \<le> \<lfloor>y * 10 + 1 / 2\<rfloor>"
      using assms by (intro floor_mono) simp
    then have "real_of_int \<lfloor>x * 10 + 1 / 2\<rfloor> \<le> real_of_int \<lfloor>y * 10 + 1 / 2\<rfloor>"
      by simp
    then show ?thesis using small xs assms y0 by (simp add: toFixed1_def Let_def)
  next
    case big
    then show ?thesis using assms y0 by (simp add: toFixed1_def Let_def)
  next
    case mixed
    have "\<lfloor>x * 10 + 1 / 2\<rfloor> \<le> (10 ^ 22 :: int)"
      using mixed(1) by (simp add: floor_le_iff)
    then have "real_of_int \<lfloor>x * 10 + 1 / 2\<rfloor> \<le> real_of_int (10 ^ 22)"
      by (simp only: of_int_le_iff)
    also have "real_of_int (10 ^ 22) \<le> y * 10" using mixed(2) by simp
    finally have "real_of_int \<lfloor>x * 10 + 1 / 2\<rfloor> \<le> y * 10" .
    then show ?thesis using mixed assms y0 by (simp add: toFixed1_def Let_def)
  qed
qed

lemma toFixed1_100: "toFixed1 100 = 100"
  by (simp add: toFixed1_def Let_def)

lemma partialSums_ge: "(\<forall>v\<in>set vs. 0 \<le> v) \<Longrightarrow> c \<in> set (partialSums a vs) \<Longrightarrow> a \<le> c"
  by (induction vs arbitrary: a) fastforce+

lemma partialSums_sorted: "(\<forall>v\<in>set vs. 0 \<le> v) \<Longrightarrow> sorted (partialSums a vs)"
  by (induction vs arbitrary: a) (auto dest: partialSums_ge)

lemma partialSums_Nil: "partialSums a vs = [] \<longleftrightarrow> vs = []"
  by (cases vs) simp_all

lemma partialSums_last: "vs \<noteq> [] \<Longrightarrow> last (partialSums a vs) = a + sum_list vs"
proof (induction vs arbitrary: a)
  case Nil
  then show ?case by simp
next
  case (Cons v vs)
  show ?case
  proof (cases "vs = []")
    case True
    then show ?thesis by simp
  next
    case False
    then show ?thesis using Cons.IH [OF False, of "a + v"] by (simp add: partialSums_Nil add.assoc)
  qed
qed

lemma partialSums_length: "length (partialSums a vs) = length vs"
  by (induction vs arbitrary: a) simp_all

lemma paretoRows_cumulative:
  "grand \<noteq> 0 \<Longrightarrow>
   map cumulativePercentage (paretoRows grand running items) =
     map (\<lambda>c. Some (toFixed1 (c / grand * 100))) (partialSums running (map item_value items))"
  by (induction items arbitrary: running) (simp_all add: jsDivide_def Let_def)

lemma foldl_item_values:
  "foldl (\<lambda>acc item. acc + item_value item) a items = a + sum_list (map item_value items)"
  by (induction items arbitrary: a) simp_all

lemma sum_list_sort_key:
  "sum_list (map g (sort_key k items)) = sum_list (map g items)" for g :: "'a \<Rightarrow> real"
proof -
  have "sum_mset (image_mset g (mset (sort_key k items))) = sum_mset (image_mset g (mset items))"
    by simp
  then show ?thesis by (metis mset_map sum_mset_sum_list)
qed

lemma sorted_map_mono_nonneg:
  assumes "sorted (xs :: real list)" and "\<forall>x\<in>set xs. 0 \<le> x"
    and "\<And>a b. 0 \<le> a \<Longrightarrow> a \<le> b \<Longrightarrow> f a \<le> (f b :: real)"
  shows "sorted (map f xs)"
  using assms(1,2)
proof (induction xs)
  case Nil
  then show ?case by simp
next
  case (Cons x xs)
  then have "\<forall>y\<in>set xs. f x \<le> f y" using assms(3) by simp
  then show ?case using Cons by simp
qed

text \<open>
  Claim C9, as amended. For every list of items whose values are not negative and whose
  total is positive, every cumulative percentage of the Pareto ranking is a finite number,
  the sequence of cumulative percentages is non-decreasing, and its last element is 100.
  For other inputs the claim fails: with a negative value the sequence can decrease, and
  with a total of zero the percentages are not numbers.
\<close>

theorem calculateParetoData_cumulative:
  "(\<forall>item\<in>set data. 0 \<le> item_value item) \<and> 0 < sum_list (map item_value data) \<longrightarrow>
     (\<exists>ps. map cumulativePercentage (calculateParetoData data) = map Some ps
           \<and> length ps = length data \<and> sorted ps \<and> last ps = 100)"
proof
  assume h: "(\<forall>item\<in>set data. 0 \<le> item_value item) \<and> 0 < sum_list (map item_value data)"
  define sd where "sd = sort_key (\<lambda>item. - item_value item) data"
  define g where "g = sum_list (map item_value data)"
  define cs where "cs = partialSums 0 (map item_value sd)"
  define ps where "ps = map (\<lambda>c. toFixed1 (c / g * 100)) cs"
  have gpos: "0 < g" using h by (simp add: g_def)
  have grand: "foldl (\<lambda>acc item. acc + item_value item) 0 sd = g"
    by (simp add: foldl_item_values sd_def g_def sum_list_sort_key)
  have nonneg: "\<forall>v\<in>set (map item_value sd). 0 \<le> v" using h by (simp add: sd_def)
  have "data \<noteq> []" using h by auto
  moreover have "length sd = length data" by (simp add: sd_def)
  ultimately have ne: "map item_value sd \<noteq> []" by auto
  have eq: "map cumulativePercentage (calculateParetoData data) = map Some ps"
    using gpos paretoRows_cumulative [of g 0 sd]
    by (simp add: calculateParetoData_def Let_def grand sd_def [symmetric] ps_def cs_def)
  have len: "length ps = length data"
    by (simp add: ps_def cs_def partialSums_length sd_def)
  have cs_sorted: "sorted cs" using nonneg by (simp add: cs_def partialSums_sorted)
  have cs_nonneg: "0 \<le> c" if "c \<in> set cs" for c
    using partialSums_ge [OF nonneg] that by (simp add: cs_def)
  have mono: "toFixed1 (a / g * 100) \<le> toFixed1 (b / g * 100)" if "0 \<le> a" "a \<le> b" for a b
    using that gpos by (intro toFixed1_mono) (simp_all add: divide_right_mono)
  have srt: "sorted ps"
    unfolding ps_def
  proof (rule sorted_map_mono_nonneg [OF cs_sorted])
    show "\<forall>c\<in>set cs. 0 \<le> c" using cs_nonneg by blast
    show "toFixed1 (a / g * 100) \<le> toFixed1 (b / g * 100)" if "0 \<le> a" "a \<le> b" for a b
      using mono that .
  qed
  have "cs \<noteq> []" using ne by (simp add: cs_def partialSums_Nil)
  then have "last ps = toFixed1 (last cs / g * 100)" by (simp add: ps_def last_map)
  also have "last cs = g"
    using partialSums_last [OF ne, of 0] by (simp add: cs_def sd_def g_def sum_list_sort_key)
  finally have lst: "last ps = 100" using gpos by (simp add: toFixed1_100)
  show "\<exists>ps. map cumulativePercentage (calculateParetoData data) = map Some ps
           \<and> length ps = length data \<and> sorted ps \<and> last ps = 100"
    by (intro exI [of _ ps] conjI eq len srt lst)
qed

theorem calculateParetoData_cumulative_witness:
  "(\<exists>ps. map cumulativePercentage
            (calculateParetoData
               [\<lparr>item_name = ''B'', item_value = 1\<rparr>, \<lparr>item_name = ''A'', item_value = 3\<rparr>])
          = map Some ps
        \<and> sorted ps \<and> last ps = 100)
   \<and> map cumulativePercentage
       (calculateParetoData
          [\<lparr>item_name = ''B'', item_value = 1\<rparr>, \<lparr>item_name = ''A'', item_value = 3\<rparr>])
     = [Some 75, Some 100]"
proof -
  have h: "(\<forall>item\<in>set [\<lparr>item_name = ''B'', item_value = 1\<rparr>, \<lparr>item_name = ''A'', item_value = 3\<rparr>].
              0 \<le> item_value item)
           \<and> 0 < sum_list (map item_value
                 [\<lparr>item_name = ''B'', item_value = 1\<rparr>, \<lparr>item_name = ''A'', item_value = 3\<rparr>])"
    by simp
  have "\<exists>ps. map cumulativePercentage
            (calculateParetoData
               [\<lparr>item_name = ''B'', item_value = 1\<rparr>, \<lparr>item_name = ''A'', item_value = 3\<rparr>])
          = map Some ps
        \<and> length ps
            = length [\<lparr>item_name = ''B'', item_value = 1\<rparr>, \<lparr>item_name = ''A'', item_value = 3\<rparr>]
        \<and> sorted ps \<and> last ps = 100"
    using calculateParetoData_cumulative
      [of "[\<lparr>item_name = ''B'', item_value = 1\<rparr>, \<lparr>item_name = ''A'', item_value = 3\<rparr>]"] h
    by (rule mp)
  then have general: "\<exists>ps. map cumulativePercentage
            (calculateParetoData
               [\<lparr>item_name = ''B'', item_value = 1\<rparr>, \<lparr>item_name = ''A'', item_value = 3\<rparr>])
          = map Some ps
        \<and> sorted ps \<and> last ps = 100"
    by blast
  have computed: "map cumulativePercentage
       (calculateParetoData
          [\<lparr>item_name = ''B'', item_value = 1\<rparr>, \<lparr>item_name = ''A'', item_value = 3\<rparr>])
     = [Some 75, Some 100]"
    by (simp add: calculateParetoData_def jsDivide_def toFixed1_def Let_def)
  show ?thesis using general computed by (intro conjI) assumption+
qed

theorem calculateParetoData_cumulative_counterexample:
  "map cumulativePercentage
     (calculateParetoData
        [\<lparr>item_name = ''A'', item_value = 3\<rparr>, \<lparr>item_name = ''B'', item_value = - 1\<rparr>])
   = [Some 150, Some 100]
   \<and> map cumulativePercentage (calculateParetoData [\<lparr>item_name = ''A'', item_value = 0\<rparr>])
     = [None]"
  by (simp add: calculateParetoData_def jsDivide_def toFixed1_def Let_def)

section \<open>Rounding to a double\<close>

text \<open>
  An integer below \<open>2^53\<close> is a double. A positive real in the binade of
  \<open>2^n\<close> rounds to the multiple of \<open>2^(n - 52)\<close> that is less than half
  a unit away from it, and so does a square root whose radicand lies between the squares of
  the two midpoints.
\<close>

lemma binaryExponent_range:
  "1 \<le> x \<Longrightarrow> x < 2 ^ n \<Longrightarrow> n \<le> fuel \<Longrightarrow>
     0 \<le> binaryExponent fuel x \<and> binaryExponent fuel x < int n"
proof (induction n arbitrary: x fuel)
  case 0
  then show ?case by simp
next
  case (Suc n)
  show ?case
  proof (cases "2 \<le> x")
    case True
    then have "1 \<le> x / 2" "x / 2 < 2 ^ n" using Suc.prems by simp_all
    moreover have "n \<le> fuel - 1" using Suc.prems by simp
    ultimately have "0 \<le> binaryExponent (fuel - 1) (x / 2) \<and> binaryExponent (fuel - 1) (x / 2) < int n"
      by (rule Suc.IH)
    moreover have "binaryExponent fuel x = binaryExponent (fuel - 1) (x / 2) + 1"
      using True Suc.prems by (subst binaryExponent.simps) simp
    ultimately show ?thesis by simp
  next
    case False
    then have "binaryExponent fuel x = 0"
      using Suc.prems by (subst binaryExponent.simps) simp
    then show ?thesis by simp
  qed
qed

lemma roundHalfEven_int: "roundHalfEven (real_of_int k) = k"
  by (simp add: roundHalfEven_def Let_def)

lemma roundToDouble_int:
  assumes "\<bar>x\<bar> < 9007199254740992" and "real_of_int \<lfloor>x\<rfloor> = x"
  shows "roundToDouble x = x"
proof (cases "x = 0")
  case True
  then show ?thesis by (simp add: roundToDouble_def)
next
  case False
  obtain k where k: "x = real_of_int k" using assms(2) by metis
  have "k \<noteq> 0" using False k by simp
  then have one: "1 \<le> \<bar>x\<bar>" using k by (simp flip: of_int_abs)
  have "\<bar>x\<bar> < 2 ^ 53" using assms(1) by simp
  then have e: "0 \<le> binaryExponent 2200 \<bar>x\<bar> \<and> binaryExponent 2200 \<bar>x\<bar> < int 53"
    using one by (intro binaryExponent_range) simp_all
  define m where "m = nat (52 - binaryExponent 2200 \<bar>x\<bar>)"
  have u: "ulpAt (max (binaryExponent 2200 \<bar>x\<bar>) (- 1022)) = 1 / 2 ^ m"
    using e by (auto simp: ulpAt_def m_def max_def)
  have "x / (1 / 2 ^ m) = real_of_int (k * 2 ^ m)" using k by simp
  then have r: "roundHalfEven (x / (1 / 2 ^ m)) = k * 2 ^ m" by (simp only: roundHalfEven_int)
  have "roundToDouble x = real_of_int (roundHalfEven (x / (1 / 2 ^ m))) * (1 / 2 ^ m)"
    using False unfolding roundToDouble_def Let_def u by simp
  also have "\<dots> = x" unfolding r using k by simp
  finally show ?thesis .
qed






section \<open>The blended overall RFT of the assembled document\<close>

lemma weight_rounding:
  "roundToDouble (4 / 10) = fourTenths"
  "roundToDouble (3 / 10) = nearThreeTenths"
  "roundToDouble (90 * fourTenths) = 36"
  "roundToDouble (80 * nearThreeTenths) = 24"
  "roundToDouble (95 * nearThreeTenths) = 57 / 2"
  by (simp_all add: roundToDouble_def fourTenths_def nearThreeTenths_def
      binaryExponent.simps ulpAt_def roundHalfEven_def Let_def)




lemma parseFloat_more:
  "parseFloat fl ''66.7'' = Some (fl (667 / 10))" "parseFloat fl [] = None"
  "parseFloat fl ''abc'' = None" "parseFloat fl ''-0.5'' = Some (fl (- (1 / 2)))"
  "parseFloat fl ''1.5e2%'' = Some (fl 150)" "parseFloat fl '' 25E-1'' = Some (fl (5 / 2))"
  by (simp_all add: parseFloat_def exponentPart_def isWhiteSpace_def isDigit_def digitsValue_def
      digitValue_def Let_def)

text \<open>
  For other rates the sum in doubles can differ from the exact sum by a rounding error, and
  the printed decimal with it: with the rates 0, 0 and 5.5 the exact sum 1.65 prints as 1.7,
  the sum in doubles lies just below 1.65 and prints as 1.6.
\<close>

lemma generateOverview_rounded_sum:
  "stats_overallRFTRate
     (generateOverview roundToDouble
        \<lparr>internal_records = ri, summary_rftRate = ''0.0''\<rparr>
        \<lparr>external_records = re, summary_resolutionRate = ''0.0''\<rparr>
        \<lparr>commercial_records = rc, summary_completionRate = ''5.5''\<rparr>)
   = 1.6
   \<and> stats_overallRFTRate
     (generateOverview (\<lambda>x. x)
        \<lparr>internal_records = ri, summary_rftRate = ''0.0''\<rparr>
        \<lparr>external_records = re, summary_resolutionRate = ''0.0''\<rparr>
        \<lparr>commercial_records = rc, summary_completionRate = ''5.5''\<rparr>)
   = 1.7"
proof -
  have p: "parseFloat fl ''0.0'' = Some (fl 0)" "parseFloat fl ''5.5'' = Some (fl (11 / 2))" for fl
    by (simp_all add: parseFloat_def exponentPart_def isWhiteSpace_def isDigit_def digitsValue_def
      digitValue_def Let_def)
  have r: "roundToDouble 0 = 0" "roundToDouble 100 = 100"
    by (simp_all add: roundToDouble_int)
  have h: "roundToDouble (11 / 2) = 11 / 2"
    by (simp add: roundToDouble_def binaryExponent.simps ulpAt_def roundHalfEven_def Let_def)
  have w: "roundToDouble (3 / 10) = nearThreeTenths" by (rule weight_rounding(2))
  have m: "roundToDouble (11 * nearThreeTenths / 2) = 3715469692580659 / 2251799813685248"
    by (simp add: roundToDouble_def nearThreeTenths_def binaryExponent.simps ulpAt_def
        roundHalfEven_def Let_def)
  have k: "roundToDouble (3715469692580659 / 2251799813685248) = 3715469692580659 / 2251799813685248"
    by (simp add: roundToDouble_def binaryExponent.simps ulpAt_def roundHalfEven_def Let_def)
  have d: "weightedRFT roundToDouble 0 100 (11 / 2) = 3715469692580659 / 2251799813685248"
    unfolding weightedRFT_def by (simp add: r w m k)
  have "stats_overallRFTRate
     (generateOverview roundToDouble
        \<lparr>internal_records = ri, summary_rftRate = ''0.0''\<rparr>
        \<lparr>external_records = re, summary_resolutionRate = ''0.0''\<rparr>
        \<lparr>commercial_records = rc, summary_completionRate = ''5.5''\<rparr>)
     = toFixed1 (weightedRFT roundToDouble 0 100 (11 / 2))"
    by (simp add: generateOverview_def Let_def p orZero_def r h)
  then have dbl: "stats_overallRFTRate
     (generateOverview roundToDouble
        \<lparr>internal_records = ri, summary_rftRate = ''0.0''\<rparr>
        \<lparr>external_records = re, summary_resolutionRate = ''0.0''\<rparr>
        \<lparr>commercial_records = rc, summary_completionRate = ''5.5''\<rparr>) = 1.6"
    unfolding d by (simp add: toFixed1_def Let_def)
  have exact: "stats_overallRFTRate
     (generateOverview (\<lambda>x. x)
        \<lparr>internal_records = ri, summary_rftRate = ''0.0''\<rparr>
        \<lparr>external_records = re, summary_resolutionRate = ''0.0''\<rparr>
        \<lparr>commercial_records = rc, summary_completionRate = ''5.5''\<rparr>) = 1.7"
    by (simp add: generateOverview_def Let_def p orZero_def weightedRFT_def toFixed1_def)
  show ?thesis using dbl exact by (intro conjI) assumption+
qed

section \<open>Outliers of a process stage\<close>


















section \<open>Lag correlation\<close>

lemma filter_from_lag:
  "filter (\<lambda>i. lag \<le> i \<and> P i) [0..<n] = filter P [lag..<n]"
  by (induction n) auto

lemma lagPairs_filter:
  "lagPairs mc lag =
     map (\<lambda>i. (internalRFT (mc ! (i - lag)), externalRFT (mc ! i)))
       (filter (\<lambda>i. externalRFT (mc ! i) > 0 \<and> internalRFT (mc ! (i - lag)) > 0)
          [lag..<length mc])"
proof -
  have "lagPairs mc lag =
     map (\<lambda>i. (internalRFT (mc ! (i - lag)), externalRFT (mc ! i)))
       (filter (\<lambda>i. lag \<le> i \<and> (externalRFT (mc ! i) > 0 \<and> internalRFT (mc ! (i - lag)) > 0))
          [0..<length mc])"
    unfolding lagPairs_def List.map_filter_def Let_def
    by (rule map_cong [OF filter_cong]) (auto split: if_splits)
  then show ?thesis by (simp only: filter_from_lag)
qed

lemma calculateRFTRate_zero: "calculateRFTRate rs = 0 \<longleftrightarrow> (\<forall>r\<in>set rs. hasErrors r)"
proof (cases "rs = []")
  case True
  then show ?thesis by (simp add: calculateRFTRate_def)
next
  case False
  have "filter (\<lambda>r. \<not> hasErrors r) rs = [] \<longleftrightarrow> (\<forall>r\<in>set rs. hasErrors r)"
    by (auto simp: filter_empty_conv)
  then show ?thesis using False by (simp add: calculateRFTRate_def)
qed

lemma monthlyComparison_rates:
  "e \<in> set (monthlyComparison eg ig) \<Longrightarrow>
     externalRFT e = calculateRFTRate (lookupGroup eg (month e))
     \<and> internalRFT e = calculateRFTRate (lookupGroup ig (month e))"
  by (auto simp: monthlyComparison_def Let_def)


text \<open>
  Claim C10. The pairs built for a lag are those of the months, from index \<open>lag\<close> on,
  whose external rate and whose internal rate \<open>lag\<close> months earlier are both
  positive. A month pair in which either rate is 0 therefore adds no pair, and does not
  count where the number of pairs is compared with 3. The rates of a monthly comparison are
  RFT rates of the month's records, so a month in which every external (or internal) record
  failed has the rate 0.
\<close>

theorem lagPairs_excludes_zero_rates:
  "lagPairs mc lag =
     map (\<lambda>i. (internalRFT (mc ! (i - lag)), externalRFT (mc ! i)))
       (filter (\<lambda>i. externalRFT (mc ! i) > 0 \<and> internalRFT (mc ! (i - lag)) > 0)
          [lag..<length mc])
   \<and> (\<forall>p\<in>set (lagPairs mc lag). fst p > 0 \<and> snd p > 0)
   \<and> (\<forall>e\<in>set (monthlyComparison eg ig).
         ((\<forall>r\<in>set (lookupGroup eg (month e)). hasErrors r) \<longrightarrow> externalRFT e = 0)
       \<and> ((\<forall>r\<in>set (lookupGroup ig (month e)). hasErrors r) \<longrightarrow> internalRFT e = 0))"
proof (intro conjI)
  show "lagPairs mc lag =
     map (\<lambda>i. (internalRFT (mc ! (i - lag)), externalRFT (mc ! i)))
       (filter (\<lambda>i. externalRFT (mc ! i) > 0 \<and> internalRFT (mc ! (i - lag)) > 0)
          [lag..<length mc])"
    by (rule lagPairs_filter)
next
  show "\<forall>p\<in>set (lagPairs mc lag). fst p > 0 \<and> snd p > 0"
    by (auto simp: lagPairs_filter)
next
  show "\<forall>e\<in>set (monthlyComparison eg ig).
         ((\<forall>r\<in>set (lookupGroup eg (month e)). hasErrors r) \<longrightarrow> externalRFT e = 0)
       \<and> ((\<forall>r\<in>set (lookupGroup ig (month e)). hasErrors r) \<longrightarrow> internalRFT e = 0)"
    using monthlyComparison_rates [of _ eg ig] calculateRFTRate_zero by metis
qed

theorem lagPairs_excludes_zero_rates_witness:
  "lagPairs sampleComparison 0 = [(50, 25), (75, 50), (100, 75)]
   \<and> lagPairs sampleComparison 2 = [(25, 50), (50, 75)]"
proof -
  have zero: "lagPairs sampleComparison 0 = [(50, 25), (75, 50), (100, 75)]"
    using lagPairs_excludes_zero_rates [of sampleComparison 0 "[]" "[]"]
    by (simp add: sampleComparison_def sampleMonth_def upt_rec)
  have two: "lagPairs sampleComparison 2 = [(25, 50), (50, 75)]"
    using lagPairs_excludes_zero_rates [of sampleComparison 2 "[]" "[]"]
    by (simp add: sampleComparison_def sampleMonth_def upt_rec)
  show ?thesis using zero two by (intro conjI) assumption+
qed
























section \<open>Month buckets\<close>

lemma pushGroup_keys:
  "map fst (pushGroup g k v) = (if k \<in> set (map fst g) then map fst g else map fst g @ [k])"
  by (induction g k v rule: pushGroup.induct) auto

lemma pushGroup_lookup:
  "lookupGroup (pushGroup g k v) k' = (if k' = k then lookupGroup g k @ [v] else lookupGroup g k')"
  by (induction g k v rule: pushGroup.induct) (auto simp: lookupGroup_def)

lemma addToMonthGroup_valid:
  assumes "truthyString (dateField r) \<and> dateField r \<noteq> Some ''N/A''"
  shows "addToMonthGroup newDate dateField g r =
           (case recordMonth newDate dateField r of None \<Rightarrow> g | Some k \<Rightarrow> pushGroup g k r)"
  using assms
  by (auto simp: addToMonthGroup_def recordMonth_def truthyString_def split: option.splits)

lemma recordMonth_valid:
  "recordMonth newDate dateField r = Some k \<Longrightarrow>
     truthyString (dateField r) \<and> dateField r \<noteq> Some ''N/A''"
  by (auto simp: recordMonth_def truthyString_def split: option.splits if_splits)

lemma monthGroups_fold:
  assumes "\<forall>r\<in>set rs. truthyString (dateField r) \<and> dateField r \<noteq> Some ''N/A''"
  shows "(distinct (map fst g) \<longrightarrow> distinct (map fst (foldl (addToMonthGroup newDate dateField) g rs)))
       \<and> set (map fst (foldl (addToMonthGroup newDate dateField) g rs)) =
           set (map fst g) \<union> {k. \<exists>r\<in>set rs. recordMonth newDate dateField r = Some k}
       \<and> (\<forall>k. lookupGroup (foldl (addToMonthGroup newDate dateField) g rs) k =
              lookupGroup g k @ filter (\<lambda>r. recordMonth newDate dateField r = Some k) rs)"
  using assms
proof (induction rs arbitrary: g)
  case Nil
  show ?case by simp
next
  case (Cons r rs)
  have v: "truthyString (dateField r) \<and> dateField r \<noteq> Some ''N/A''" using Cons.prems by simp
  have rest: "\<forall>r\<in>set rs. truthyString (dateField r) \<and> dateField r \<noteq> Some ''N/A''"
    using Cons.prems by simp
  show ?case
  proof (cases "recordMonth newDate dateField r")
    case None
    then have "addToMonthGroup newDate dateField g r = g"
      by (simp add: addToMonthGroup_valid [of dateField r, OF v])
    then show ?thesis using Cons.IH [OF rest, of g] None by auto
  next
    case (Some k)
    then have step: "addToMonthGroup newDate dateField g r = pushGroup g k r"
      by (simp add: addToMonthGroup_valid [of dateField r, OF v])
    have d: "distinct (map fst g) \<longrightarrow> distinct (map fst (pushGroup g k r))"
      by (simp add: pushGroup_keys)
    have s: "set (map fst (pushGroup g k r)) = insert k (set (map fst g))"
      by (auto simp: pushGroup_keys)
    show ?thesis
      using Cons.IH [OF rest, of "pushGroup g k r"] Some d s
      by (auto simp: step pushGroup_lookup)
  qed
qed

lemma sliceFrom_recent: "0 < n \<Longrightarrow> sliceFrom (- n) xs = drop (length xs - nat n) xs"
  by (auto simp: sliceFrom_def Let_def max_def nat_diff_distrib' intro: arg_cong2 [where f = drop])

text \<open>
  For a positive limit (the default 12 included) the keys returned are the last
  \<open>limit\<close> of the sorted month keys present among the records, at most \<open>limit\<close>
  of them, and the bucket of a key holds exactly the records filed under that month, in
  input order. A record whose date field is missing, empty, \<open>'N/A'\<close> or not a date
  is filed under no month and so is in no bucket.
\<close>

theorem groupRecordsByMonth_recent:
  assumes "0 < (case monthCountArg of None \<Rightarrow> 12 | Some n \<Rightarrow> n)"
  shows "let dateField = (case dateFieldArg of None \<Rightarrow> assembly_start | Some f \<Rightarrow> f);
             limit = (case monthCountArg of None \<Rightarrow> 12 | Some n \<Rightarrow> n);
             present = sorted_list_of_set
                         {k. \<exists>r\<in>set records. recordMonth newDate dateField r = Some k};
             result = groupRecordsByMonth newDate records dateFieldArg monthCountArg
         in map fst result = drop (length present - nat limit) present
            \<and> length result \<le> nat limit
            \<and> (\<forall>b\<in>set result.
                  snd b = filter (\<lambda>r. recordMonth newDate dateField r = Some (fst b)) records)"
proof -
  define dateField where "dateField = (case dateFieldArg of None \<Rightarrow> assembly_start | Some f \<Rightarrow> f)"
  define n where "n = (case monthCountArg of None \<Rightarrow> 12 | Some n \<Rightarrow> n)"
  define valid where
    "valid = filter (\<lambda>r. truthyString (dateField r) \<and> dateField r \<noteq> Some ''N/A'') records"
  define G where "G = foldl (addToMonthGroup newDate dateField) [] valid"
  define K where "K = {k. \<exists>r\<in>set records. recordMonth newDate dateField r = Some k}"
  have npos: "0 < n" using assms by (simp add: n_def)
  have v: "\<forall>r\<in>set valid. truthyString (dateField r) \<and> dateField r \<noteq> Some ''N/A''"
    by (simp add: valid_def)
  note f = monthGroups_fold [OF v, of "[]" newDate, folded G_def]
  have dist: "distinct (map fst G)" using f by simp
  have keys: "fst ` set G = K"
    using f recordMonth_valid [of newDate dateField] by (auto simp: K_def valid_def)
  have same: "filter (\<lambda>r. recordMonth newDate dateField r = Some k) valid
              = filter (\<lambda>r. recordMonth newDate dateField r = Some k) records" for k
    unfolding valid_def filter_filter
    by (rule filter_cong) (auto dest: recordMonth_valid)
  have look: "lookupGroup G k = filter (\<lambda>r. recordMonth newDate dateField r = Some k) records" for k
    using f same by (simp add: lookupGroup_def)
  have fin: "finite K" using keys [symmetric] by simp
  have srt: "sort (map fst G) = sorted_list_of_set K"
    by (rule sorted_distinct_set_unique) (simp_all add: dist keys fin)
  have len: "length G = card K" using arg_cong [OF srt, of length] by simp
  have res: "groupRecordsByMonth newDate records dateFieldArg monthCountArg
             = map (\<lambda>m. (m, lookupGroup G m)) (drop (length (sorted_list_of_set K) - nat n) (sorted_list_of_set K))"
    using npos
    by (simp add: groupRecordsByMonth_def Let_def dateField_def [symmetric] n_def [symmetric]
        valid_def [symmetric] G_def [symmetric] srt sliceFrom_recent len)
  show ?thesis
    unfolding Let_def dateField_def [symmetric] n_def [symmetric] K_def [symmetric] res
    by (auto simp: comp_def look)
qed

lemma sample_groups_recent:
  "map fst (groupRecordsByMonth sampleDate sampleDated None (Some 2)) = [''2024-01'', ''2024-02'']"
  "map fst (groupRecordsByMonth sampleDate sampleDated None None)
     = [''2023-12'', ''2024-01'', ''2024-02'']"
  by code_simp+

theorem groupRecordsByMonth_recent_witness:
  "map fst (groupRecordsByMonth sampleDate sampleDated None (Some 2)) = [''2024-01'', ''2024-02'']
   \<and> map fst (groupRecordsByMonth sampleDate sampleDated None None)
       = [''2023-12'', ''2024-01'', ''2024-02'']"
  using groupRecordsByMonth_recent [where monthCountArg = "Some 2" and newDate = sampleDate
      and records = sampleDated and dateFieldArg = None] sample_groups_recent
  by (intro conjI) assumption+

text \<open>
  Claim C8. The claim holds for a positive limit, as shown above, but not for the limit 0:
  \<open>slice(-0)\<close> is \<open>slice(0)\<close>, which keeps the whole array, so with three
  months present and the limit 0 all three keys are returned.
\<close>

theorem groupRecordsByMonth_limit_zero:
  "map fst (groupRecordsByMonth sampleDate sampleDated None (Some 0))
     = [''2023-12'', ''2024-01'', ''2024-02'']"
  by code_simp

section \<open>Error-type ranking\<close>

lemma assignOwn_keys: "map fst (assignOwn cs k v) = map fst cs"
  by (induction cs k v rule: assignOwn.induct) auto








lemma recordTokens_falsy: "\<not> truthyErrorTypes (errorTypes r) \<Longrightarrow> recordTokens r = []"
  by (auto simp: truthyErrorTypes_def recordTokens_def tokensOf_def trim_def
      split: option.splits errorTypeField.splits)

lemma errorTokens_filter:
  "concat (map recordTokens (filter (\<lambda>r. hasErrors r \<and> truthyErrorTypes (errorTypes r)) rs))
   = errorTokens rs"
  unfolding errorTokens_def
  by (induction rs) (auto simp: recordTokens_falsy)









lemmas ranking_defs =
  analyzeErrorTypes_def rankErrorTypes_def sliceTo_def Let_def flaggedRecord_def
  blankRecord_def truthyErrorTypes_def countRecordTypes_def tokensOf_def trim_def
  isWhiteSpace_def countType_def prototypeNames_def objectEntries_def isArrayIndex_def
  isDigit_def sortBy_def byCountDescending_def addCount_def





text \<open>
  What the counting does with other names: a member name of \<open>Object.prototype\<close>
  met once is counted as NaN, which makes the total and every percentage NaN; the name
  \<open>__proto__\<close> is not counted at all; and names that are array indices come first
  in the ranking among equal counts.
\<close>

lemma analyzeErrorTypes_inherited_names:
  "map (\<lambda>e. (et_name e, et_count e, et_percentage e))
     (analyzeErrorTypes fl [flaggedRecord (ErrorArray [''A'', ''constructor''])] None)
   = [(''A'', Some 1, None), (''constructor'', None, None)]
   \<and> analyzeErrorTypes fl [flaggedRecord (ErrorArray [''__proto__''])] None = []
   \<and> map et_name
       (analyzeErrorTypes fl [flaggedRecord (ErrorArray [''b'', ''7'', ''a'', ''10'', ''2''])] (Some 5))
     = [''2'', ''7'', ''10'', ''b'', ''a'']"
  by (simp add: ranking_defs percentageOf_def jsDivide_def digitsValue_def digitValue_def)

section \<open>Records without a source tag\<close>

lemma objects_Some: "objects (map Some rs) = Inr rs"
  by (auto simp: objects_def map_filter_Some)

lemma no_source_filters:
  assumes "\<forall>r\<in>set rs. source r = None"
  shows "filter isInternal rs = []" and "filter isExternal rs = []"
  using assms by (auto simp: isInternal_def isExternal_def filter_empty_conv)

lemma groupStep_thrown: "foldl (groupStep key) (Inl e) data = Inl e"
  by (induction data) (simp_all add: groupStep_def)

lemma groupBy_throws:
  "\<forall>k\<in>set (map fst groups). k \<notin> set prototypeNames \<Longrightarrow>
   (\<exists>e. foldl (groupStep key) (Inr groups) data = Inl e)
     \<longleftrightarrow> (\<exists>item\<in>set data. key item \<in> set prototypeNames)"
proof (induction data arbitrary: groups)
  case Nil
  show ?case by simp
next
  case (Cons item data)
  show ?case
  proof (cases "map_of groups (key item)")
    case (Some members)
    then have "key item \<in> set (map fst groups)" by (metis map_of_eq_None_iff option.distinct(1) set_map)
    then have ord: "key item \<notin> set prototypeNames" using Cons.prems by blast
    have step: "groupStep key (Inr groups) item
                  = Inr (assignOwn groups (key item) (members @ [item]))"
      by (simp add: groupStep_def Some)
    have "\<forall>k\<in>set (map fst (assignOwn groups (key item) (members @ [item]))).
            k \<notin> set prototypeNames"
      unfolding assignOwn_keys using Cons.prems .
    then show ?thesis using Cons.IH ord by (simp add: step)
  next
    case None
    show ?thesis
    proof (cases "key item \<in> set prototypeNames")
      case True
      then have "groupStep key (Inr groups) item = Inl TypeError"
        by (simp add: groupStep_def None)
      then show ?thesis using True by (simp add: groupStep_thrown)
    next
      case False
      then have step: "groupStep key (Inr groups) item = Inr (groups @ [(key item, [item])])"
        by (simp add: groupStep_def None)
      have "\<forall>k\<in>set (map fst (groups @ [(key item, [item])])). k \<notin> set prototypeNames"
        using Cons.prems False by simp
      then show ?thesis using Cons.IH False by (simp add: step)
    qed
  qed
qed

lemma allErrorTypes_types: "map occurrence_type (allErrorTypes rs) = errorTokens rs"
proof -
  have one: "map occurrence_type
               (case errorTypes r of
                  None \<Rightarrow> []
                | Some et \<Rightarrow>
                    map (\<lambda>t. \<lparr>occurrence_type = t, occurrence_batchId = batchId r,
                                occurrence_date = assembly_start r\<rparr>)
                      (filter (\<lambda>t. t \<noteq> []) (tokensOf et)))
             = recordTokens r" for r
    by (cases "errorTypes r") (simp_all add: recordTokens_def comp_def)
  show ?thesis
    unfolding allErrorTypes_def map_concat map_map comp_def one
    using errorTokens_filter [of rs] by (simp add: comp_def)
qed

lemma insightsBody_throws:
  "(insightsBody fl toNumber newDate (map Some rs) = Inl TypeError)
     \<longleftrightarrow> (\<exists>t\<in>set (errorTokens rs). t \<in> set prototypeNames)"
proof (cases "rs = []")
  case True
  then show ?thesis by (simp add: insightsBody_def errorTokens_def)
next
  case False
  have g: "(\<exists>e. groupBy occurrence_type (allErrorTypes rs) = Inl e)
             \<longleftrightarrow> (\<exists>item\<in>set (allErrorTypes rs). occurrence_type item \<in> set prototypeNames)"
    unfolding groupBy_def by (rule groupBy_throws) simp
  have "(\<exists>item\<in>set (allErrorTypes rs). occurrence_type item \<in> set prototypeNames)
          \<longleftrightarrow> (\<exists>t\<in>set (map occurrence_type (allErrorTypes rs)). t \<in> set prototypeNames)"
    by auto
  then have t: "(\<exists>e. groupBy occurrence_type (allErrorTypes rs) = Inl e)
             \<longleftrightarrow> (\<exists>t\<in>set (errorTokens rs). t \<in> set prototypeNames)"
    using g unfolding allErrorTypes_types by simp
  have "(insightsBody fl toNumber newDate (map Some rs) = Inl TypeError)
          \<longleftrightarrow> (\<exists>e. groupBy occurrence_type (allErrorTypes rs) = Inl e)"
    using False
    by (cases "groupBy occurrence_type (allErrorTypes rs)")
       (auto simp: insightsBody_def objects_Some Let_def intro: jsError.exhaust)
  then show ?thesis using t by simp
qed

lemma transformData_null_element: "transformData fl toNumber newDate [None] = initialDashboard"
  by (simp add: transformData_def transformOverviewData_def transformInternalRFTData_def
      transformExternalRFTData_def transformInsightsData_def caught_def overviewBody_def
      internalBody_def externalBody_def insightsBody_def objects_def initialDashboard_def)

text \<open>
  Claim C1, as amended. For a non-empty array of records that all lack the \<open>source\<close>
  property, the Overview transformer assigns its section, and the Internal RFT and the
  External RFT transformer return early without assigning theirs and without an exception:
  both sections stay the empty object and reading \<open>recordCount\<close> from them gives
  \<open>undefined\<close>, not 0; and \<open>overview.totalRecords\<close> is the number of input
  records. The Insights transformer throws exactly when an error type of a flagged record
  is the name of a member of \<open>Object.prototype\<close>; it catches the exception itself
  and leaves its own section empty, so no exception leaves \<open>transformData\<close>.
\<close>

theorem transformData_without_source:
  "rs \<noteq> [] \<and> (\<forall>r\<in>set rs. source r = None) \<longrightarrow>
     overviewBody fl (map Some rs) \<noteq> Inl TypeError
     \<and> internalBody newDate (map Some rs) = Inr None
     \<and> externalBody fl newDate (map Some rs) = Inr None
     \<and> ((insightsBody fl toNumber newDate (map Some rs) = Inl TypeError)
          = (\<exists>t\<in>set (errorTokens rs). t \<in> set prototypeNames))
     \<and> insights (transformData fl toNumber newDate (map Some rs))
         = caught (insightsBody fl toNumber newDate (map Some rs)) None
     \<and> internalRFTSection (transformData fl toNumber newDate (map Some rs)) = None
     \<and> externalRFTSection (transformData fl toNumber newDate (map Some rs)) = None
     \<and> internalRecordCount (transformData fl toNumber newDate (map Some rs)) = None
     \<and> externalRecordCount (transformData fl toNumber newDate (map Some rs)) = None
     \<and> overviewTotalRecords (transformData fl toNumber newDate (map Some rs)) = Some (length rs)"
proof
  assume h: "rs \<noteq> [] \<and> (\<forall>r\<in>set rs. source r = None)"
  then have ne: "map Some rs \<noteq> []" by simp
  have fi: "filter isInternal rs = []" and fe: "filter isExternal rs = []"
    using no_source_filters h by blast+
  have ov: "overviewBody fl (map Some rs) =
      Inr (Some \<lparr>totalRecords = length rs, overallRFTRate = calculateRFTRate rs,
                 topIssues = analyzeErrorTypes fl rs (Some 3),
                 passCount = length (filter (\<lambda>r. \<not> hasErrors r) rs),
                 failCount = length (filter (\<lambda>r. hasErrors r) rs)\<rparr>)"
    using h by (simp add: overviewBody_def objects_Some)
  have ib: "internalBody newDate (map Some rs) = Inr None"
    using h by (simp add: internalBody_def objects_Some fi)
  have eb: "externalBody fl newDate (map Some rs) = Inr None"
    using h by (simp add: externalBody_def objects_Some fe)
  have doc: "transformData fl toNumber newDate (map Some rs) =
      \<lparr>overview = Some \<lparr>totalRecords = length rs, overallRFTRate = calculateRFTRate rs,
                 topIssues = analyzeErrorTypes fl rs (Some 3),
                 passCount = length (filter (\<lambda>r. \<not> hasErrors r) rs),
                 failCount = length (filter (\<lambda>r. hasErrors r) rs)\<rparr>,
       internalRFTSection = None, externalRFTSection = None,
       insights = caught (insightsBody fl toNumber newDate (map Some rs)) None\<rparr>"
    by (simp add: transformData_def transformOverviewData_def transformInternalRFTData_def
        transformExternalRFTData_def transformInsightsData_def caught_def ov ib eb
        initialDashboard_def)
  show "overviewBody fl (map Some rs) \<noteq> Inl TypeError
     \<and> internalBody newDate (map Some rs) = Inr None
     \<and> externalBody fl newDate (map Some rs) = Inr None
     \<and> ((insightsBody fl toNumber newDate (map Some rs) = Inl TypeError)
          = (\<exists>t\<in>set (errorTokens rs). t \<in> set prototypeNames))
     \<and> insights (transformData fl toNumber newDate (map Some rs))
         = caught (insightsBody fl toNumber newDate (map Some rs)) None
     \<and> internalRFTSection (transformData fl toNumber newDate (map Some rs)) = None
     \<and> externalRFTSection (transformData fl toNumber newDate (map Some rs)) = None
     \<and> internalRecordCount (transformData fl toNumber newDate (map Some rs)) = None
     \<and> externalRecordCount (transformData fl toNumber newDate (map Some rs)) = None
     \<and> overviewTotalRecords (transformData fl toNumber newDate (map Some rs)) = Some (length rs)"
    unfolding doc
    by (simp add: ov ib eb insightsBody_throws internalRecordCount_def externalRecordCount_def
        overviewTotalRecords_def)
qed

theorem transformData_without_source_witness:
  "overviewTotalRecords
     (transformData roundToDouble sampleNumber sampleDate
        (map Some [blankRecord, datedRecord ''2024-01-15''])) = Some 2
   \<and> internalRecordCount
       (transformData roundToDouble sampleNumber sampleDate
          (map Some [blankRecord, datedRecord ''2024-01-15''])) = None
   \<and> externalRecordCount
       (transformData roundToDouble sampleNumber sampleDate
          (map Some [blankRecord, datedRecord ''2024-01-15''])) = None
   \<and> insightsBody roundToDouble sampleNumber sampleDate
       (map Some [blankRecord, datedRecord ''2024-01-15'']) \<noteq> Inl TypeError"
proof -
  have h: "[blankRecord, datedRecord ''2024-01-15''] \<noteq> []
           \<and> (\<forall>r\<in>set [blankRecord, datedRecord ''2024-01-15'']. source r = None)"
    by (simp add: blankRecord_def datedRecord_def)
  have t: "errorTokens [blankRecord, datedRecord ''2024-01-15''] = []"
    by (simp add: errorTokens_def blankRecord_def datedRecord_def)
  show ?thesis
    using transformData_without_source
      [of "[blankRecord, datedRecord ''2024-01-15'']" roundToDouble sampleDate sampleNumber] h
    by (simp add: t)
qed

theorem transformData_without_source_counterexample:
  "internalRecordCount (transformData roundToDouble sampleNumber sampleDate [Some blankRecord])
     \<noteq> Some 0
   \<and> externalRecordCount (transformData roundToDouble sampleNumber sampleDate [Some blankRecord])
       \<noteq> Some 0
   \<and> internalRecordCount (transformData roundToDouble sampleNumber sampleDate [Some blankRecord])
       = None
   \<and> externalRecordCount (transformData roundToDouble sampleNumber sampleDate [Some blankRecord])
       = None
   \<and> overviewTotalRecords (transformData roundToDouble sampleNumber sampleDate [Some blankRecord])
       = Some 1
   \<and> overviewTotalRecords (transformData roundToDouble sampleNumber sampleDate []) = None
   \<and> insightsBody roundToDouble sampleNumber sampleDate
       [Some (flaggedRecord (ErrorArray [''constructor'']))] = Inl TypeError"
proof -
  have sections:
    "internalRFTSection (transformData roundToDouble sampleNumber sampleDate [Some blankRecord])
       = None"
    "externalRFTSection (transformData roundToDouble sampleNumber sampleDate [Some blankRecord])
       = None"
    "overviewTotalRecords (transformData roundToDouble sampleNumber sampleDate [Some blankRecord])
       = Some 1"
    "overviewTotalRecords (transformData roundToDouble sampleNumber sampleDate []) = None"
    by (simp_all add: transformData_def transformOverviewData_def transformInternalRFTData_def
        transformExternalRFTData_def transformInsightsData_def caught_def overviewBody_def
        internalBody_def externalBody_def objects_def initialDashboard_def
        isInternal_def isExternal_def blankRecord_def overviewTotalRecords_def
        List.map_filter_def)
  have thrown: "insightsBody roundToDouble sampleNumber sampleDate
       [Some (flaggedRecord (ErrorArray [''constructor'']))] = Inl TypeError"
    using insightsBody_throws
      [of roundToDouble sampleNumber sampleDate "[flaggedRecord (ErrorArray [''constructor''])]"]
    by (simp add: errorTokens_def recordTokens_def tokensOf_def flaggedRecord_def blankRecord_def
        prototypeNames_def)
  show ?thesis
    using sections thrown
    by (simp add: internalRecordCount_def externalRecordCount_def)
qed

end
